theory Spec2Isabelle
  imports
    Complex_Main
    "HOL-Library.AList"
    "HOL-Library.Char_ord"
    "HOL-Library.List_Lexorder"
    "HOL-Library.Multiset"
    "HOL-Library.Product_Lexorder"
begin

section \<open>IFC model reports: a shallow embedding of multi\_anabim.py\<close>

text \<open>
  The development follows \<^verbatim>\<open>src/multi_anabim.py\<close> function by function.
  Conventions of the embedding:
  \<^item> Python floats are read as exact reals (\<^typ>\<open>real\<close>); the claims established below are
    statements about the formulas the code evaluates, not about rounding.
  \<^item> Python strings are byte lists (\<^typ>\<open>string\<close>) holding the UTF-8 encoding, so the
    accented letters of the sheet and column titles are written byte by byte. UTF-8 is
    injective and keeps the code point order, so equality and comparison agree with Python's.
  \<^item> A Python \<^verbatim>\<open>dict\<close> is an association list in insertion order, updated with
    \<^const>\<open>AList.update\<close>: an existing key keeps its place and gets the new value, a new key goes
    to the end.
  \<^item> Every exception is a value of \<open>py_error\<close>; a function that may raise returns
    \<open>py_error + 'a\<close>.
\<close>

subsection \<open>Errors and values\<close>

datatype py_error =
    IndexError
  | StopIteration
  | RuntimeError
  | AttributeError
  | KeyError
  | ValueError
  | OpenError string
  | OutputError
  | SystemExit string

text \<open>
  What a cell or a summary value may hold: \<^verbatim>\<open>None\<close>, a string, a float (NaN apart) or
  an int.
\<close>

datatype pyval = VNone | VStr string | VNum real | VNaN | VInt int

text \<open>
  An attribute read through ifcopenshell: the entity's kind may not have the attribute at all
  (\<^verbatim>\<open>hasattr\<close> is false, plain access raises \<^verbatim>\<open>AttributeError\<close>), it may be null, or it
  has a value.
\<close>

datatype 'a attr = Absent | Null | Value 'a

subsection \<open>The queryable model\<close>

text \<open>
  A unit of a unit assignment: \<^verbatim>\<open>u.is_a("IfcSIUnit")\<close> holds for \<open>IfcSIUnit\<close> only, which
  carries \<^verbatim>\<open>UnitType\<close> and the optional \<^verbatim>\<open>Prefix\<close>.
\<close>

datatype unit_entity = IfcSIUnit (UnitType: string) (Prefix: "string attr") | OtherUnit

datatype placement = IfcLocalPlacement (Coordinates: "real list") | OtherPlacement

record map_conversion =
  Eastings :: real
  Northings :: real
  OrthogonalHeight :: "real option"

record site =
  RefLatitude :: "real list option"
  RefLongitude :: "real list option"
  RefElevation :: "real option"
  ObjectPlacement :: "placement option"

record entity =
  is_a :: string
  GlobalId :: string
  Name :: "string option"
  LongName :: "string attr"
  PredefinedType :: "string attr"
  ObjectType :: "string attr"

text \<open>
  \<open>by_type\<close> of each kind the code asks for, in file order. \<open>IfcMapConversion\<close> is
  \<open>None\<close> when the schema does not know the kind: \<^verbatim>\<open>by_type\<close> then raises
  \<^verbatim>\<open>RuntimeError\<close>. An aggregation relation is its \<^verbatim>\<open>RelatingObject\<close> and its
  \<^verbatim>\<open>RelatedObjects\<close>; a storey is its \<^verbatim>\<open>Name\<close> and \<^verbatim>\<open>Elevation\<close>.
\<close>

record model =
  schema_id :: string
  IfcUnitAssignment :: "unit_entity list list"
  IfcBuildingStorey :: "(string option \<times> real option) list"
  IfcSite :: "site list"
  IfcMapConversion :: "map_conversion list option"
  IfcRelAggregates :: "(entity \<times> entity list) list"
  IfcProject :: "entity list"
  IfcProduct :: "entity list"

subsection \<open>Helpers\<close>

text \<open>
  The body of the \<^verbatim>\<open>try\<close> of \<^verbatim>\<open>get_length_factor\<close>: indexing the first unit assignment
  raises \<^verbatim>\<open>IndexError\<close> when there is none, \<^verbatim>\<open>next\<close> raises \<^verbatim>\<open>StopIteration\<close> when
  no SI length unit is found; \<^verbatim>\<open>getattr(lu, "Prefix", None)\<close> turns an absent attribute
  into \<^verbatim>\<open>None\<close>. The result says whether the \<^verbatim>\<open>return 0.001\<close> inside was reached.
\<close>

fun is_si_length :: "unit_entity \<Rightarrow> bool" where
  "is_si_length (IfcSIUnit t p) = (t = ''LENGTHUNIT'')"
| "is_si_length OtherUnit = False"

fun getattr_Prefix :: "unit_entity \<Rightarrow> string option" where
  "getattr_Prefix (IfcSIUnit t (Value p)) = Some p"
| "getattr_Prefix (IfcSIUnit t Null) = None"
| "getattr_Prefix (IfcSIUnit t Absent) = None"
| "getattr_Prefix OtherUnit = None"

definition length_factor_try :: "model \<Rightarrow> py_error + bool" where
  "length_factor_try m =
     (case IfcUnitAssignment m of
        [] \<Rightarrow> Inl IndexError
      | ua # _ \<Rightarrow>
          (case find is_si_length ua of
             None \<Rightarrow> Inl StopIteration
           | Some lu \<Rightarrow> Inr (getattr_Prefix lu = Some ''MILLI'')))"

definition get_length_factor :: "model \<Rightarrow> real" where
  "get_length_factor m =
     (case length_factor_try m of
        Inr True \<Rightarrow> 1 / 1000
      | Inr False \<Rightarrow> 1
      | Inl e \<Rightarrow> 1)"

subsection \<open>Extraction\<close>

text \<open>
  \<^verbatim>\<open>dms_to_dd\<close>: the sequence is padded with zeros to four components and the first four are
  unpacked; after the padding there are always at least four.
\<close>

definition dms_to_dd :: "real list option \<Rightarrow> real option" where
  "dms_to_dd dms =
     (case dms of
        None \<Rightarrow> None
      | Some xs \<Rightarrow>
          (let parts = xs @ replicate (4 - length xs) 0;
               deg = parts ! 0; minute = parts ! 1; sec = parts ! 2; micro = parts ! 3;
               sign = (if deg < 0 then - 1 else 1)
           in Some (sign * (\<bar>deg\<bar> + minute / 60 + (sec + micro / 1000000) / 3600))))"

text \<open>\<^verbatim>\<open>x or 0\<close> on an optional number: \<^verbatim>\<open>None\<close> and zero are both falsy.\<close>

fun or0 :: "real option \<Rightarrow> real" where
  "or0 None = 0"
| "or0 (Some x) = (if x = 0 then 0 else x)"

text \<open>\<^verbatim>\<open>d.get(k)\<close> on a dictionary of optional numbers: a missing key reads as \<^verbatim>\<open>None\<close>.\<close>

definition dict_get :: "(string \<times> real option) list \<Rightarrow> string \<Rightarrow> real option" where
  "dict_get d k = (case map_of d k of None \<Rightarrow> None | Some v \<Rightarrow> v)"

text \<open>\<^verbatim>\<open>get_levels\<close>: Python's \<^verbatim>\<open>sorted\<close> is stable, as \<^const>\<open>sort_key\<close> is.\<close>

definition get_levels :: "model \<Rightarrow> (string option \<times> real option) list" where
  "get_levels m = sort_key (\<lambda>t. or0 (snd t)) (IfcBuildingStorey m)"

text \<open>A tuple is truthy when it is neither \<^verbatim>\<open>None\<close> nor empty.\<close>

fun truthy_seq :: "'a list option \<Rightarrow> bool" where
  "truthy_seq None = False"
| "truthy_seq (Some xs) = (xs \<noteq> [])"

definition get_site_geolocation :: "model \<Rightarrow> (string \<times> real option) list" where
  "get_site_geolocation m =
     (case IfcSite m of
        [] \<Rightarrow> []
      | site # _ \<Rightarrow>
          [(''latitude'',
              if truthy_seq (RefLatitude site) then dms_to_dd (RefLatitude site) else None),
           (''longitude'',
              if truthy_seq (RefLongitude site) then dms_to_dd (RefLongitude site) else None),
           (''elevation_m'', RefElevation site)])"

text \<open>
  \<^verbatim>\<open>next(iter(model.by_type("IfcMapConversion")))\<close> under its \<^verbatim>\<open>except\<close>: a
  \<^verbatim>\<open>RuntimeError\<close> of \<^verbatim>\<open>by_type\<close> and the \<^verbatim>\<open>StopIteration\<close> of an empty list both
  give \<^verbatim>\<open>None\<close>.
\<close>

fun first_map_conversion :: "model \<Rightarrow> map_conversion option" where
  "first_map_conversion m =
     (case IfcMapConversion m of
        None \<Rightarrow> None
      | Some [] \<Rightarrow> None
      | Some (mc # _) \<Rightarrow> Some mc)"

text \<open>
  \<^verbatim>\<open>x, y, *rest = list(loc.Coordinates) + [None, None]; z = rest[0]\<close>. The padded list has
  at least two elements, so the unpacking itself cannot fail; \<^verbatim>\<open>rest[0]\<close> raises
  \<^verbatim>\<open>IndexError\<close> when there was no coordinate at all.
\<close>

definition placement_coords ::
  "real \<Rightarrow> real list \<Rightarrow> py_error + (string \<times> real option) list" where
  "placement_coords factor coords =
     (case map Some coords @ [None, None] of
        x # y # rest \<Rightarrow>
          (case rest of
             [] \<Rightarrow> Inl IndexError
           | z # _ \<Rightarrow>
               Inr [(''X_global_m'', map_option (\<lambda>v. v * factor) x),
                    (''Y_global_m'', map_option (\<lambda>v. v * factor) y),
                    (''Z_global_m'', map_option (\<lambda>v. v * factor) z)])
      | _ \<Rightarrow> Inl ValueError)"

definition get_global_coords :: "model \<Rightarrow> py_error + (string \<times> real option) list" where
  "get_global_coords m =
     (let factor = get_length_factor m in
      case first_map_conversion m of
        Some map_conv \<Rightarrow>
          Inr [(''X_global_m'', Some (Eastings map_conv * factor)),
               (''Y_global_m'', Some (Northings map_conv * factor)),
               (''Z_global_m'',
                  if OrthogonalHeight map_conv \<noteq> None
                  then Some (or0 (OrthogonalHeight map_conv) * factor) else None)]
      | None \<Rightarrow>
          (case IfcSite m of
             [] \<Rightarrow> Inr []
           | site # _ \<Rightarrow>
               (case ObjectPlacement site of
                  Some (IfcLocalPlacement coords) \<Rightarrow> placement_coords factor coords
                | Some OtherPlacement \<Rightarrow> Inr []
                | None \<Rightarrow> Inr [])))"

subsection \<open>The hierarchy walk\<close>

text \<open>
  The dictionary comprehension over the aggregation relations: one entry per
  \<^verbatim>\<open>RelatingObject.GlobalId\<close>, each relation storing its own \<^verbatim>\<open>RelatedObjects\<close> under
  that key.
\<close>

definition rels_index :: "model \<Rightarrow> (string \<times> entity list) list" where
  "rels_index m =
     foldl (\<lambda>d rel. AList.update (GlobalId (fst rel)) (snd rel) d) [] (IfcRelAggregates m)"

definition rels_get :: "(string \<times> entity list) list \<Rightarrow> string \<Rightarrow> entity list" where
  "rels_get rels k = (case map_of rels k of None \<Rightarrow> [] | Some cs \<Rightarrow> cs)"

record hierarchy_row =
  Type :: string
  Nom :: string
  Profondeur :: nat
  Chemin :: string

fun join :: "string \<Rightarrow> string list \<Rightarrow> string" where
  "join sep [] = []"
| "join sep [x] = x"
| "join sep (x # y # ys) = x @ sep @ join sep (y # ys)"

text \<open>
  \<^verbatim>\<open>ent.Name or ent.LongName or ent.GlobalId\<close>. \<^verbatim>\<open>Name\<close> and \<^verbatim>\<open>GlobalId\<close> belong to every
  rooted entity; \<^verbatim>\<open>LongName\<close> is read by plain attribute access, which raises
  \<^verbatim>\<open>AttributeError\<close> on a kind that has no such attribute.
\<close>

definition display_name :: "entity \<Rightarrow> py_error + string" where
  "display_name ent =
     (if Name ent \<noteq> None \<and> Name ent \<noteq> Some []
      then Inr (case Name ent of Some n \<Rightarrow> n | None \<Rightarrow> [])
      else (case LongName ent of
              Absent \<Rightarrow> Inl AttributeError
            | Null \<Rightarrow> Inr (GlobalId ent)
            | Value l \<Rightarrow> if l \<noteq> [] then Inr l else Inr (GlobalId ent)))"

text \<open>
  \<^verbatim>\<open>walk\<close> appends to the enclosing \<^verbatim>\<open>rows\<close>; here \<open>rows\<close> is passed and returned. The
  recursion of the source has no bound (an aggregation cycle never returns), so the model
  counts the nesting of calls down from a fuel: \<open>None\<close> means the fuel ran out.
  The interpreter's own limit on the depth of recursion is not part of the model.
\<close>

fun for_children ::
  "(entity \<Rightarrow> hierarchy_row list \<Rightarrow> (py_error + hierarchy_row list) option) \<Rightarrow>
   entity list \<Rightarrow> hierarchy_row list \<Rightarrow> (py_error + hierarchy_row list) option" where
  "for_children w [] rows = Some (Inr rows)"
| "for_children w (child # cs) rows =
     (case w child rows of
        None \<Rightarrow> None
      | Some (Inl e) \<Rightarrow> Some (Inl e)
      | Some (Inr rows') \<Rightarrow> for_children w cs rows')"

fun walk ::
  "nat \<Rightarrow> (string \<times> entity list) list \<Rightarrow> string list \<Rightarrow> entity \<Rightarrow> hierarchy_row list \<Rightarrow>
   (py_error + hierarchy_row list) option" where
  "walk 0 rels path ent rows = None"
| "walk (Suc fuel) rels path ent rows =
     (case display_name ent of
        Inl e \<Rightarrow> Some (Inl e)
      | Inr name \<Rightarrow>
          (let new_path = path @ [is_a ent @ '':'' @ name];
               rows' = rows @ [\<lparr>Type = is_a ent, Nom = name, Profondeur = length path,
                                Chemin = join ''/'' new_path\<rparr>]
           in for_children (walk fuel rels new_path) (rels_get rels (GlobalId ent)) rows'))"

definition flatten_hierarchy :: "nat \<Rightarrow> model \<Rightarrow> (py_error + hierarchy_row list) option" where
  "flatten_hierarchy fuel m =
     (let rels = rels_index m in
      case IfcProject m of
        [] \<Rightarrow> Some (Inr [])
      | project # _ \<Rightarrow> walk fuel rels [] project [])"

subsection \<open>Entity counts\<close>

text \<open>The em dash \<^verbatim>\<open>U+2014\<close> shown for an entity without a sub-type.\<close>

definition dash :: string where
  "dash = [CHR 0xE2, CHR 0x80, CHR 0x94]"

definition subtype_of :: "entity \<Rightarrow> string option" where
  "subtype_of obj =
     (case PredefinedType obj of
        Value p \<Rightarrow> Some p
      | _ \<Rightarrow>
          (case ObjectType obj of
             Value t \<Rightarrow> if t \<noteq> [] then Some t else None
           | _ \<Rightarrow> None))"

definition entity_key :: "entity \<Rightarrow> string \<times> string option" where
  "entity_key obj = (is_a obj, subtype_of obj)"

definition count_entity ::
  "((string \<times> string option) \<times> int) list \<Rightarrow> entity \<Rightarrow> ((string \<times> string option) \<times> int) list"
  where
  "count_entity entity_counter obj =
     (let key = entity_key obj in
      AList.update key
        ((case map_of entity_counter key of None \<Rightarrow> 0 | Some n \<Rightarrow> n) + 1) entity_counter)"

definition entity_counter :: "model \<Rightarrow> ((string \<times> string option) \<times> int) list" where
  "entity_counter m = foldl count_entity [] (IfcProduct m)"

fun ent_row :: "(string \<times> string option) \<times> int \<Rightarrow> string \<times> string \<times> int" where
  "ent_row ((kind, typ), v) =
     (kind, (case typ of None \<Rightarrow> dash | Some t \<Rightarrow> if t = [] then dash else t), v)"

definition ent_rows :: "model \<Rightarrow> (string \<times> string \<times> int) list" where
  "ent_rows m = map ent_row (sort_key (\<lambda>x. (- snd x, fst (fst x))) (entity_counter m))"

subsection \<open>Levels\<close>

record level_row =
  level_Nom :: "string option"
  Altimetrie_locale :: "real option"
  Altimetrie_NGF :: "real option"

definition level_alt :: "real \<Rightarrow> (string option \<times> real option) list \<Rightarrow> real option list" where
  "level_alt factor lvls = map (\<lambda>(n, e). map_option (\<lambda>v. v * factor) e) lvls"

definition level_ngf :: "real option \<Rightarrow> real option list \<Rightarrow> real option list" where
  "level_ngf site_z alts =
     map (\<lambda>a. if a \<noteq> None \<and> site_z \<noteq> None
               then (case (a, site_z) of (Some x, Some z) \<Rightarrow> Some (x + z) | _ \<Rightarrow> None)
               else None) alts"

text \<open>The three columns of \<^verbatim>\<open>levels_df\<close>, row by row.\<close>

definition levels_rows ::
  "model \<Rightarrow> (string \<times> real option) list \<Rightarrow> level_row list" where
  "levels_rows m glob =
     (let factor = get_length_factor m;
          site_z = dict_get glob ''Z_global_m'';
          lvls = get_levels m;
          alts = level_alt factor lvls;
          ngfs = level_ngf site_z alts
      in map (\<lambda>(n, a, z). \<lparr>level_Nom = n, Altimetrie_locale = a, Altimetrie_NGF = z\<rparr>)
             (zip (map fst lvls) (zip alts ngfs)))"

subsection \<open>File sizes\<close>

text \<open>
  \<^verbatim>\<open>human_readable_size\<close>: \<^verbatim>\<open>bytes_\<close> is a file size, so not negative. Dividing a float
  by 1024 is exact, and the \<^verbatim>\<open>.1f\<close> format rounds the exact value to the nearest tenth,
  a tie going to the even digit.
\<close>

fun string_of_nat :: "nat \<Rightarrow> string" where
  "string_of_nat n =
     (if n < 10 then [''0123456789'' ! n]
      else string_of_nat (n div 10) @ [''0123456789'' ! (n mod 10)])"

definition round_half_even :: "real \<Rightarrow> int" where
  "round_half_even x =
     (let f = \<lfloor>x\<rfloor>; r = x - of_int f in
      if r < 1 / 2 then f else if 1 / 2 < r then f + 1 else if even f then f else f + 1)"

definition format_1f :: "real \<Rightarrow> string" where
  "format_1f x =
     (let t = nat (round_half_even (x * 10)) in
      string_of_nat (t div 10) @ ''.'' @ string_of_nat (t mod 10))"

fun size_loop :: "real \<Rightarrow> string list \<Rightarrow> string" where
  "size_loop bytes [] = format_1f bytes @ '' PB''"
| "size_loop bytes (unit # units) =
     (if bytes < 1024 then format_1f bytes @ '' '' @ unit
      else size_loop (bytes / 1024) units)"

definition human_readable_size :: "nat \<Rightarrow> string" where
  "human_readable_size bytes = size_loop (real bytes) [''B'', ''KB'', ''MB'', ''GB'', ''TB'']"

subsection \<open>The four tables\<close>

text \<open>
  An input path: \<^verbatim>\<open>name\<close> is \<open>stem @ suffix\<close>, and
  \<^verbatim>\<open>with_suffix(".xlsx").name\<close> is \<open>stem @ ''.xlsx''\<close>. The environment is what the code
  asks of the outside: \<^verbatim>\<open>ifcopenshell.open\<close> (which raises on a file it cannot read or
  parse), \<^verbatim>\<open>stat().st_size\<close>, whether a destination can be written, and the title the
  spreadsheet library gives a new sheet, from the titles the workbook has and the title asked
  for.
\<close>

record path =
  parent :: string
  stem :: string
  suffix :: string

record env =
  ifc_open :: "path \<Rightarrow> py_error + model"
  st_size :: "path \<Rightarrow> nat"
  writable :: "string \<Rightarrow> bool"
  new_title :: "string list \<Rightarrow> string \<Rightarrow> py_error + string"

definition e_acute :: string where
  "e_acute = [CHR 0xC3, CHR 0xA9]"

fun of_opt :: "real option \<Rightarrow> pyval" where
  "of_opt None = VNone"
| "of_opt (Some r) = VNum r"

definition items :: "(string \<times> real option) list \<Rightarrow> (string \<times> pyval) list" where
  "items d = map (\<lambda>(k, v). (k, of_opt v)) d"

definition summary_pairs ::
  "env \<Rightarrow> path \<Rightarrow> model \<Rightarrow> (string \<times> real option) list \<Rightarrow> (string \<times> real option) list \<Rightarrow>
   (string \<times> pyval) list" where
  "summary_pairs ev ifc_path m glob geo =
     [(''fichier'', VStr (stem ifc_path @ suffix ifc_path)),
      (''taille'', VStr (human_readable_size (st_size ev ifc_path))),
      (''sch'' @ e_acute @ ''ma'', VStr (schema_id m))]
     @ items glob @ items geo"

record tables =
  summary :: "(string \<times> pyval) list"
  levels :: "level_row list"
  hierarchy :: "hierarchy_row list"
  entities :: "(string \<times> string \<times> int) list"

text \<open>
  The tables of \<^verbatim>\<open>build_workbook\<close>, in the order the code derives them. The fuel is that
  of the hierarchy walk.
\<close>

definition build_tables :: "nat \<Rightarrow> env \<Rightarrow> path \<Rightarrow> model \<Rightarrow> (py_error + tables) option" where
  "build_tables fuel ev ifc_path m =
     (let geo = get_site_geolocation m in
      case get_global_coords m of
        Inl e \<Rightarrow> Some (Inl e)
      | Inr glob \<Rightarrow>
          (case flatten_hierarchy fuel m of
             None \<Rightarrow> None
           | Some (Inl e) \<Rightarrow> Some (Inl e)
           | Some (Inr rows) \<Rightarrow>
               Some (Inr \<lparr>summary = summary_pairs ev ifc_path m glob geo,
                          levels = levels_rows m glob,
                          hierarchy = rows,
                          entities = ent_rows m\<rparr>)))"

subsection \<open>Sheets and cells\<close>

text \<open>
  The spreadsheet library keeps the fonts and fills of a workbook in tables of the workbook;
  the style of a cell (\<^verbatim>\<open>_style\<close>) is an array of indices into the tables of the workbook
  the cell belongs to. Of a font only the name, bold, italic and the RGB colour are kept
  here, of a fill its pattern and colours; the other indices of the array are never touched by
  the code. A sheet is its cells by (row, column), a workbook its sheets by title, in order
  of creation, with its tables. The declared table region and the column widths are sheet
  metadata beside the cells and are left out.
\<close>

record font =
  font_name :: "string option"
  bold :: bool
  italic :: bool
  color :: "string option"

record pattern_fill =
  fill_type :: "string option"
  start_color :: string
  end_color :: string

record style_array =
  fontId :: nat
  fillId :: nat

record cell =
  cell_value :: pyval
  cell_style :: style_array

type_synonym worksheet = "((nat \<times> nat) \<times> cell) list"

record workbook =
  sheets :: "(string \<times> worksheet) list"
  fonts :: "font list"
  fills :: "pattern_fill list"

text \<open>
  \<^verbatim>\<open>Workbook()\<close> once its first sheet is removed: no sheet, the default font, and the
  two default fills.
\<close>

definition default_font :: font where
  "default_font = \<lparr>font_name = Some ''Calibri'', bold = False, italic = False, color = None\<rparr>"

definition new_workbook :: workbook where
  "new_workbook =
     \<lparr>sheets = [],
      fonts = [default_font],
      fills = [\<lparr>fill_type = None, start_color = ''00000000'', end_color = ''00000000''\<rparr>,
               \<lparr>fill_type = Some ''gray125'', start_color = ''00000000'',
                end_color = ''00000000''\<rparr>]\<rparr>"

definition empty_cell :: cell where
  "empty_cell = \<lparr>cell_value = VNone, cell_style = \<lparr>fontId = 0, fillId = 0\<rparr>\<rparr>"

text \<open>Adding to a table gives the index of an equal entry, or of the new last entry.\<close>

fun first_index :: "'a \<Rightarrow> 'a list \<Rightarrow> nat option" where
  "first_index x [] = None"
| "first_index x (y # ys) = (if y = x then Some 0 else map_option Suc (first_index x ys))"

definition indexed_add :: "'a list \<Rightarrow> 'a \<Rightarrow> 'a list \<times> nat" where
  "indexed_add xs x =
     (case first_index x xs of None \<Rightarrow> (xs @ [x], length xs) | Some i \<Rightarrow> (xs, i))"


definition cell_fill :: "workbook \<Rightarrow> cell \<Rightarrow> py_error + pattern_fill" where
  "cell_fill wb c =
     (if fillId (cell_style c) < length (fills wb)
      then Inr (fills wb ! fillId (cell_style c)) else Inl IndexError)"

text \<open>Reading a coordinate creates the cell when the sheet does not have it yet.\<close>

definition get_cell :: "worksheet \<Rightarrow> nat \<times> nat \<Rightarrow> cell" where
  "get_cell ws rc = (case map_of ws rc of None \<Rightarrow> empty_cell | Some c \<Rightarrow> c)"

text \<open>\<^verbatim>\<open>ws.cell(row, column, value)\<close> assigns the value unless it is \<^verbatim>\<open>None\<close>.\<close>

definition ws_cell :: "worksheet \<Rightarrow> nat \<times> nat \<Rightarrow> pyval \<Rightarrow> worksheet" where
  "ws_cell ws rc v =
     AList.update rc (if v = VNone then get_cell ws rc else (get_cell ws rc)\<lparr>cell_value := v\<rparr>) ws"

definition set_value :: "worksheet \<Rightarrow> nat \<times> nat \<Rightarrow> pyval \<Rightarrow> worksheet" where
  "set_value ws rc v = AList.update rc ((get_cell ws rc)\<lparr>cell_value := v\<rparr>) ws"

definition set_style :: "worksheet \<Rightarrow> nat \<times> nat \<Rightarrow> style_array \<Rightarrow> worksheet" where
  "set_style ws rc st = AList.update rc ((get_cell ws rc)\<lparr>cell_style := st\<rparr>) ws"

text \<open>
  \<^verbatim>\<open>cell.font = f\<close> and \<^verbatim>\<open>cell.fill = f\<close> add \<open>f\<close> to the table of the cell's workbook
  and store the index in the cell.
\<close>

definition set_font ::
  "workbook \<times> worksheet \<Rightarrow> nat \<times> nat \<Rightarrow> font \<Rightarrow> workbook \<times> worksheet" where
  "set_font st rc f =
     (let (fs, i) = indexed_add (fonts (fst st)) f in
      ((fst st)\<lparr>fonts := fs\<rparr>,
       set_style (snd st) rc ((cell_style (get_cell (snd st) rc))\<lparr>fontId := i\<rparr>)))"

definition set_fill ::
  "workbook \<times> worksheet \<Rightarrow> nat \<times> nat \<Rightarrow> pattern_fill \<Rightarrow> workbook \<times> worksheet" where
  "set_fill st rc f =
     (let (fs, i) = indexed_add (fills (fst st)) f in
      ((fst st)\<lparr>fills := fs\<rparr>,
       set_style (snd st) rc ((cell_style (get_cell (snd st) rc))\<lparr>fillId := i\<rparr>)))"

record dataframe =
  columns :: "string list"
  data :: "pyval list list"

text \<open>
  A frame built from a list of records takes its columns from the records' keys: without
  records it has no column at all.
\<close>

definition frame_of_records :: "string list \<Rightarrow> pyval list list \<Rightarrow> dataframe" where
  "frame_of_records keys rows =
     (if rows = [] then \<lparr>columns = [], data = []\<rparr> else \<lparr>columns = keys, data = rows\<rparr>)"

fun column_index :: "string \<Rightarrow> string list \<Rightarrow> nat option" where
  "column_index col [] = None"
| "column_index col (c # cs) =
     (if c = col then Some 0 else map_option Suc (column_index col cs))"

text \<open>\<^verbatim>\<open>df[col]\<close>: the values of a column, \<^verbatim>\<open>KeyError\<close> when the frame has no such column.\<close>

definition df_column :: "dataframe \<Rightarrow> string \<Rightarrow> py_error + pyval list" where
  "df_column df col =
     (case column_index col (columns df) of
        None \<Rightarrow> Inl KeyError
      | Some i \<Rightarrow> Inr (map (\<lambda>row. row ! i) (data df)))"

text \<open>
  \<^verbatim>\<open>write_df\<close> on a sheet of the workbook: the header cells with their font, then the
  data cells.
\<close>

definition write_df ::
  "workbook \<times> worksheet \<Rightarrow> dataframe \<Rightarrow> nat \<Rightarrow> nat \<Rightarrow> workbook \<times> worksheet" where
  "write_df st df start_row start_col =
     (let st1 =
            fold (\<lambda>(c, col) s.
                    set_font (fst s, ws_cell (snd s) (start_row + 1, start_col + c + 1) (VStr col))
                      (start_row + 1, start_col + c + 1)
                      \<lparr>font_name = None, bold = True, italic = False, color = Some ''FFFFFF''\<rparr>)
                 (enumerate 0 (columns df)) st
      in (fst st1,
          fold (\<lambda>(r_idx, row) w.
                  fold (\<lambda>(c_idx, v) w'.
                          ws_cell w' (start_row + 2 + r_idx, start_col + c_idx + 1) v)
                       (enumerate 0 row) w)
               (enumerate 0 (data df)) (snd st1)))"

definition entite_ifc :: string where
  "entite_ifc = ''Entit'' @ e_acute @ '' IFC''"

text \<open>The orange rows of the entity sheet, and their \<^verbatim>\<open>Attention\<close> cell.\<close>

definition highlight_proxies ::
  "workbook \<times> worksheet \<Rightarrow> dataframe \<Rightarrow> py_error + workbook \<times> worksheet" where
  "highlight_proxies st df =
     (let orange_fill = \<lparr>fill_type = Some ''solid'', start_color = ''FFC000'',
                         end_color = ''FFC000''\<rparr>;
          orange_font = \<lparr>font_name = None, bold = False, italic = True,
                         color = Some ''C55A11''\<rparr>;
          start_col_idx = 2;
          attention_col_idx = start_col_idx + length (columns df)
      in case df_column df entite_ifc of
           Inl e \<Rightarrow> Inl e
         | Inr vals \<Rightarrow>
             Inr (fold (\<lambda>(row_offset, ent_val) s.
                          if ent_val = VStr ''IfcBuildingElementProxy''
                          then (let excel_row = 3 + row_offset;
                                    s1 = fold (\<lambda>col_off s'.
                                                 set_fill s' (excel_row, start_col_idx + col_off)
                                                   orange_fill)
                                              [0..<length (columns df)] s;
                                    s2 = (fst s1,
                                          set_value (snd s1) (excel_row, attention_col_idx)
                                            (VStr ''Attention''))
                                in set_font s2 (excel_row, attention_col_idx) orange_font)
                          else s)
                       (enumerate 0 vals) st))"

definition sheet_resume :: string where
  "sheet_resume = ''R'' @ e_acute @ ''sum'' @ e_acute"

definition sheet_niveaux :: string where
  "sheet_niveaux = ''Niveaux''"

definition sheet_arborescence :: string where
  "sheet_arborescence = ''Arborescence''"

definition sheet_entites :: string where
  "sheet_entites = ''Entit'' @ e_acute @ ''s''"

text \<open>
  The frames. A column of the summary mixes strings and numbers and keeps \<^verbatim>\<open>None\<close> as it
  is; a column of optional numbers becomes a float column, where \<^verbatim>\<open>None\<close> turns into
  NaN, unless it holds no number at all.
\<close>

definition summary_df :: "(string \<times> pyval) list \<Rightarrow> dataframe" where
  "summary_df pairs =
     \<lparr>columns = [''Propri'' @ e_acute @ ''t'' @ e_acute, ''Valeur''],
      data = map (\<lambda>(k, v). [VStr k, v]) pairs\<rparr>"

fun of_opt_str :: "string option \<Rightarrow> pyval" where
  "of_opt_str None = VNone"
| "of_opt_str (Some n) = VStr n"

fun of_float :: "real option \<Rightarrow> pyval" where
  "of_float None = VNaN"
| "of_float (Some r) = VNum r"

definition float_column :: "real option list \<Rightarrow> pyval list" where
  "float_column vs =
     (if list_ex (\<lambda>v. v \<noteq> None) vs then map of_float vs else map of_opt vs)"

definition levels_df :: "level_row list \<Rightarrow> dataframe" where
  "levels_df rows =
     \<lparr>columns = [''Nom'', ''Altim'' @ e_acute @ ''trie locale (m)'',
                 ''Altim'' @ e_acute @ ''trie NGF (m)''],
      data = map (\<lambda>(n, a, z). [n, a, z])
               (zip (map (of_opt_str \<circ> level_Nom) rows)
                  (zip (float_column (map Altimetrie_locale rows))
                       (float_column (map Altimetrie_NGF rows))))\<rparr>"

definition hierarchy_df :: "hierarchy_row list \<Rightarrow> dataframe" where
  "hierarchy_df rows =
     frame_of_records [''Type'', ''Nom'', ''Profondeur'', ''Chemin'']
       (map (\<lambda>r. [VStr (Type r), VStr (Nom r), VInt (int (Profondeur r)), VStr (Chemin r)]) rows)"

definition entities_df :: "(string \<times> string \<times> int) list \<Rightarrow> dataframe" where
  "entities_df rows =
     frame_of_records [entite_ifc, ''Type'', ''Nombre'']
       (map (\<lambda>(k, t, v). [VStr k, VStr t, VInt v]) rows)"

text \<open>
  One sheet of the loop over \<^verbatim>\<open>sheets_data\<close>. The four titles are fixed, valid and
  different, so \<^verbatim>\<open>create_sheet\<close> keeps them.
\<close>

definition render_sheet :: "workbook \<Rightarrow> string \<Rightarrow> dataframe \<Rightarrow> py_error + workbook" where
  "render_sheet wb sheet df =
     (let st = write_df (wb, []) df 1 1 in
      case (if sheet = sheet_entites then highlight_proxies st df else Inr st) of
        Inl e \<Rightarrow> Inl e
      | Inr (wb', ws) \<Rightarrow> Inr (wb'\<lparr>sheets := sheets wb' @ [(sheet, ws)]\<rparr>))"

definition render_workbook :: "tables \<Rightarrow> py_error + workbook" where
  "render_workbook t =
     (case render_sheet new_workbook sheet_resume (summary_df (summary t)) of
        Inl e \<Rightarrow> Inl e
      | Inr wb1 \<Rightarrow>
     (case render_sheet wb1 sheet_niveaux (levels_df (levels t)) of
        Inl e \<Rightarrow> Inl e
      | Inr wb2 \<Rightarrow>
     (case render_sheet wb2 sheet_arborescence (hierarchy_df (hierarchy t)) of
        Inl e \<Rightarrow> Inl e
      | Inr wb3 \<Rightarrow> render_sheet wb3 sheet_entites (entities_df (entities t)))))"

definition build_workbook :: "nat \<Rightarrow> env \<Rightarrow> path \<Rightarrow> (py_error + workbook) option" where
  "build_workbook fuel ev ifc_path =
     (case ifc_open ev ifc_path of
        Inl e \<Rightarrow> Some (Inl e)
      | Inr m \<Rightarrow>
          (case build_tables fuel ev ifc_path m of
             None \<Rightarrow> None
           | Some (Inl e) \<Rightarrow> Some (Inl e)
           | Some (Inr t) \<Rightarrow> Some (render_workbook t)))"

subsection \<open>Batch and merge\<close>

text \<open>
  What a run leaves behind: the documents written, in order, and the shared workbook of a
  merge run.
\<close>

record run_state =
  saved :: "(string \<times> workbook) list"
  merge_wb :: "workbook option"

definition save_wb :: "env \<Rightarrow> workbook \<Rightarrow> string \<Rightarrow> run_state \<Rightarrow> py_error + run_state" where
  "save_wb ev wb target st =
     (if writable ev target then Inr (st\<lparr>saved := saved st @ [(target, wb)]\<rparr>)
      else Inl OutputError)"

text \<open>
  \<^verbatim>\<open>src.rows\<close>: every cell of the rectangle from (1, 1) to the largest row and column in
  use, row by row, an untouched coordinate reading as an empty cell with the default style;
  nothing for a sheet without cells.
\<close>

definition max_row :: "worksheet \<Rightarrow> nat" where
  "max_row ws = fold max (map (fst \<circ> fst) ws) 0"

definition max_column :: "worksheet \<Rightarrow> nat" where
  "max_column ws = fold max (map (snd \<circ> fst) ws) 0"

definition ws_rows :: "worksheet \<Rightarrow> ((nat \<times> nat) \<times> cell) list" where
  "ws_rows ws =
     (if ws = [] then []
      else concat (map (\<lambda>r. map (\<lambda>c. ((r, c), get_cell ws (r, c))) [1..<Suc (max_column ws)])
                       [1..<Suc (max_row ws)]))"

text \<open>
  The two assignments of the inner loop, value first, then \<^verbatim>\<open>_style\<close>: the array of
  indices goes over as it is, into a cell of the other workbook.
\<close>

definition copy_cell :: "(nat \<times> nat) \<times> cell \<Rightarrow> worksheet \<Rightarrow> worksheet" where
  "copy_cell c dst =
     set_style (set_value dst (fst c) (cell_value (snd c))) (fst c) (cell_style (snd c))"

definition copy_sheet :: "worksheet \<Rightarrow> worksheet" where
  "copy_sheet src = fold copy_cell (ws_rows src) []"

text \<open>
  The title asked of \<^verbatim>\<open>create_sheet\<close>. What the library makes of it is the library's
  (\<open>new_title\<close> of the environment, from the titles already in the workbook): it may keep
  the title, change it, or refuse it with an error, which ends \<^verbatim>\<open>process_single\<close> with
  the sheets copied so far left in the shared workbook.
\<close>

definition merge_title :: "string \<Rightarrow> path \<Rightarrow> string" where
  "merge_title sheet ifc_path = sheet @ ''_'' @ stem ifc_path"

fun copy_sheets ::
  "env \<Rightarrow> path \<Rightarrow> (string \<times> worksheet) list \<Rightarrow> workbook \<Rightarrow> workbook \<times> py_error option" where
  "copy_sheets ev ifc_path [] acc = (acc, None)"
| "copy_sheets ev ifc_path ((sheet, src) # rest) acc =
     (case new_title ev (map fst (sheets acc)) (merge_title sheet ifc_path) of
        Inl e \<Rightarrow> (acc, Some e)
      | Inr title \<Rightarrow>
          copy_sheets ev ifc_path rest (acc\<lparr>sheets := sheets acc @ [(title, copy_sheet src)]\<rparr>))"

text \<open>
  Where a standalone document goes:
  \<^verbatim>\<open>(out_dir or ifc_path.parent) / ifc_path.with_suffix(".xlsx").name\<close>.
\<close>

definition target :: "string option \<Rightarrow> path \<Rightarrow> string" where
  "target out_dir ifc_path =
     (case out_dir of None \<Rightarrow> parent ifc_path | Some d \<Rightarrow> d)
       @ ''/'' @ stem ifc_path @ ''.xlsx''"

text \<open>\<^verbatim>\<open>process_single\<close>: the state it leaves, and the exception it ends with, if any.\<close>

definition process_single ::
  "nat \<Rightarrow> env \<Rightarrow> path \<Rightarrow> string option \<Rightarrow> bool \<Rightarrow> run_state \<Rightarrow>
   (run_state \<times> py_error option) option" where
  "process_single fuel ev ifc_path out_dir merge st =
     (case build_workbook fuel ev ifc_path of
        None \<Rightarrow> None
      | Some (Inl e) \<Rightarrow> Some (st, Some e)
      | Some (Inr wb) \<Rightarrow>
          (case (merge, merge_wb st) of
             (True, Some acc) \<Rightarrow>
               (let (acc', err) = copy_sheets ev ifc_path (sheets wb) acc
                in Some (st\<lparr>merge_wb := Some acc'\<rparr>, err))
           | _ \<Rightarrow>
               (case save_wb ev wb (target out_dir ifc_path) st of
                  Inl e \<Rightarrow> Some (st, Some e)
                | Inr st' \<Rightarrow> Some (st', None))))"

text \<open>
  The loop of \<^verbatim>\<open>main\<close> over the files found. An exception leaves the loop at once; what
  was written before stays written, so the result is the state reached and the exception,
  if any.
\<close>

fun batch_loop ::
  "nat \<Rightarrow> env \<Rightarrow> string option \<Rightarrow> bool \<Rightarrow> path list \<Rightarrow> run_state \<Rightarrow>
   (run_state \<times> py_error option) option" where
  "batch_loop fuel ev out_dir merge [] st = Some (st, None)"
| "batch_loop fuel ev out_dir merge (f # fs) st =
     (case process_single fuel ev f out_dir merge st of
        None \<Rightarrow> None
      | Some (st', Some e) \<Rightarrow> Some (st', Some e)
      | Some (st', None) \<Rightarrow> batch_loop fuel ev out_dir merge fs st')"

text \<open>
  \<^verbatim>\<open>main\<close> on a folder \<open>src\<close> whose \<^verbatim>\<open>.ifc\<close> files are \<open>ifc_files\<close>, with the options
  \<^verbatim>\<open>--merge\<close> and \<^verbatim>\<open>--output\<close>. What the run prints is left out.
\<close>

definition no_ifc_message :: string where
  "no_ifc_message =
     [CHR 0xE2, CHR 0x9D, CHR 0x8C] @ ''  Aucun .ifc trouv'' @ e_acute @ '' dans ce dossier''"

definition main_folder ::
  "nat \<Rightarrow> env \<Rightarrow> string \<Rightarrow> path list \<Rightarrow> bool \<Rightarrow> string option \<Rightarrow>
   (run_state \<times> py_error option) option" where
  "main_folder fuel ev src ifc_files merge output =
     (if ifc_files = []
      then Some (\<lparr>saved = [], merge_wb = None\<rparr>, Some (SystemExit no_ifc_message))
      else
        (let st0 = \<lparr>saved = [], merge_wb = (if merge then Some new_workbook else None)\<rparr>;
             out_dir = (if merge then None else output)
         in case batch_loop fuel ev out_dir merge ifc_files st0 of
              None \<Rightarrow> None
            | Some (st, Some e) \<Rightarrow> Some (st, Some e)
            | Some (st, None) \<Rightarrow>
                (case (merge, merge_wb st) of
                   (True, Some acc) \<Rightarrow>
                     (case save_wb ev acc
                             (case output of None \<Rightarrow> src @ ''/rapport_ifc.xlsx'' | Some p \<Rightarrow> p) st of
                        Inl e \<Rightarrow> Some (st, Some e)
                      | Inr st' \<Rightarrow> Some (st', None))
                 | _ \<Rightarrow> Some (st, None))))"

subsection \<open>Sample inputs\<close>

text \<open>Small models and paths on which the statements below are exercised.\<close>

definition empty_model :: model where
  "empty_model = \<lparr>schema_id = ''IFC4'', IfcUnitAssignment = [], IfcBuildingStorey = [],
     IfcSite = [], IfcMapConversion = Some [], IfcRelAggregates = [], IfcProject = [],
     IfcProduct = []\<rparr>"

definition rooted :: "string \<Rightarrow> string \<Rightarrow> string option \<Rightarrow> string attr \<Rightarrow> entity" where
  "rooted kind gid n l =
     \<lparr>is_a = kind, GlobalId = gid, Name = n, LongName = l, PredefinedType = Absent,
      ObjectType = Null\<rparr>"

definition product :: "string \<Rightarrow> string attr \<Rightarrow> string attr \<Rightarrow> entity" where
  "product kind p t =
     \<lparr>is_a = kind, GlobalId = ''g'', Name = None, LongName = Absent, PredefinedType = p,
      ObjectType = t\<rparr>"

definition placed_site :: "placement option \<Rightarrow> site" where
  "placed_site pl =
     \<lparr>RefLatitude = Some [48, 52, 0], RefLongitude = None, RefElevation = None,
      ObjectPlacement = pl\<rparr>"

definition millimetres :: "unit_entity list list" where
  "millimetres = [[OtherUnit, IfcSIUnit ''LENGTHUNIT'' (Value ''MILLI'')]]"

definition ifc :: "string \<Rightarrow> path" where
  "ifc s = \<lparr>parent = ''in'', stem = s, suffix = ''.ifc''\<rparr>"

definition surveyed_model :: model where
  "surveyed_model =
     empty_model\<lparr>IfcUnitAssignment := millimetres,
       IfcMapConversion :=
         Some [\<lparr>Eastings = 1000, Northings = 2000, OrthogonalHeight = Some 5000\<rparr>],
       IfcSite := [placed_site (Some (IfcLocalPlacement [7, 8, 9]))]\<rparr>"

text \<open>
  An environment in which every destination can be written and the library keeps each title
  it is asked for, as it does for a valid title the workbook does not have yet.
\<close>

definition env_of :: "(path \<Rightarrow> py_error + model) \<Rightarrow> env" where
  "env_of opener =
     \<lparr>ifc_open = opener, st_size = (\<lambda>p. 0), writable = (\<lambda>t. True),
      new_title = (\<lambda>names title. Inr title)\<rparr>"



definition counted_model :: model where
  "counted_model =
     empty_model\<lparr>IfcProduct :=
       [product ''X'' Absent Null, product ''Y'' (Value ''S'') Null,
        product ''X'' Null (Value ''''), product ''X'' Absent Absent]\<rparr>"

text \<open>A project whose children come in two relations, and one with an unnamed part.\<close>

definition split_model :: model where
  "split_model =
     empty_model\<lparr>IfcProject := [rooted ''IfcProject'' ''p'' (Some ''root'') Null],
       IfcRelAggregates :=
         [(rooted ''IfcProject'' ''p'' (Some ''root'') Null,
           [rooted ''IfcSite'' ''a'' (Some ''A'') Null]),
          (rooted ''IfcProject'' ''p'' (Some ''root'') Null,
           [rooted ''IfcBuilding'' ''b'' (Some ''B'') Null])]\<rparr>"

definition unnamed_part_model :: model where
  "unnamed_part_model =
     empty_model\<lparr>IfcProject := [rooted ''IfcProject'' ''p'' (Some ''root'') Null],
       IfcRelAggregates :=
         [(rooted ''IfcProject'' ''p'' (Some ''root'') Null,
           [rooted ''IfcBuildingElementProxy'' ''w'' None Absent])]\<rparr>"

text \<open>The aggregation tree a model describes: a node and its sub-trees, in order.\<close>

datatype etree = ENode entity "etree list"

fun tree_root :: "etree \<Rightarrow> entity" where
  "tree_root (ENode e ts) = e"

text \<open>
  The display name in the words of the specification: the short name, else the long name,
  else the stable identifier.
\<close>

definition spec_name :: "entity \<Rightarrow> string" where
  "spec_name e =
     (case Name e of
        Some n \<Rightarrow> if n \<noteq> [] then n else
          (case LongName e of Value l \<Rightarrow> if l \<noteq> [] then l else GlobalId e | _ \<Rightarrow> GlobalId e)
      | None \<Rightarrow>
          (case LongName e of Value l \<Rightarrow> if l \<noteq> [] then l else GlobalId e | _ \<Rightarrow> GlobalId e))"

fun preorder :: "string list \<Rightarrow> etree \<Rightarrow> hierarchy_row list" where
  "preorder path (ENode e ts) =
     \<lparr>Type = is_a e, Nom = spec_name e, Profondeur = length path,
      Chemin = join ''/'' (path @ [is_a e @ '':'' @ spec_name e])\<rparr>
     # concat (map (preorder (path @ [is_a e @ '':'' @ spec_name e])) ts)"

text \<open>
  The index describes the tree when it lists, under each node's identifier, the roots of
  the node's sub-trees; a tree is named when no node lacks both a short name and the
  long-name attribute.
\<close>

fun indexed :: "(string \<times> entity list) list \<Rightarrow> etree \<Rightarrow> bool" where
  "indexed rels (ENode e ts) =
     (rels_get rels (GlobalId e) = map tree_root ts \<and> list_all (indexed rels) ts)"

fun named :: "etree \<Rightarrow> bool" where
  "named (ENode e ts) =
     ((Name e \<noteq> None \<and> Name e \<noteq> Some [] \<or> LongName e \<noteq> Absent) \<and> list_all named ts)"

fun height :: "etree \<Rightarrow> nat" where
  "height (ENode e ts) = Suc (fold max (map height ts) 0)"


definition tiny_model :: model where
  "tiny_model = empty_model\<lparr>IfcProduct := [product ''X'' Absent Null]\<rparr>"

definition env3 :: env where
  "env3 = env_of (\<lambda>p. if stem p = ''b'' then Inl (OpenError ''not an IFC file'')
                        else Inr tiny_model)"



text \<open>Two walls, one whose object type is the dash itself and one without sub-type.\<close>

definition sentinel_model :: model where
  "sentinel_model =
     empty_model\<lparr>IfcProduct :=
       [product ''IfcWall'' Null (Value dash), product ''IfcWall'' Null Null]\<rparr>"

section \<open>Properties\<close>

subsection \<open>Geodetic conversion\<close>

lemma dms_padding_length: "4 \<le> length (xs @ replicate (4 - length xs) (0::real))"
  by simp

text \<open>
  C10. \<open>dms_to_dd\<close> returns absent for an absent input; for three components
  \<open>[deg, min, sec]\<close> the micro component counts as 0, and for three or four components the
  result is \<open>sign * (|deg| + min/60 + (sec + micro/1e6)/3600)\<close>, where the sign is \<open>-1\<close> for
  a negative degrees component and \<open>+1\<close> otherwise, whatever the signs of the other
  components. \<open>[0,0,0]\<close> gives exactly 0, \<open>[48,52,0]\<close> is within \<open>1e-4\<close> of 48.8667 and
  \<open>[-33,52,0]\<close> within \<open>1e-4\<close> of -33.8667.
\<close>

theorem dms_to_dd_formula:
  "dms_to_dd None = None
   \<and> dms_to_dd (Some [d, m, s]) =
       Some ((if d < 0 then - 1 else 1) * (\<bar>d\<bar> + m / 60 + (s + 0 / 1000000) / 3600))
   \<and> dms_to_dd (Some [d, m, s, u]) =
       Some ((if d < 0 then - 1 else 1) * (\<bar>d\<bar> + m / 60 + (s + u / 1000000) / 3600))
   \<and> dms_to_dd (Some [0, 0, 0]) = Some 0
   \<and> (case dms_to_dd (Some [48, 52, 0]) of
         None \<Rightarrow> False
       | Some r \<Rightarrow> \<bar>r - 488667 / 10000\<bar> \<le> 1 / 10000)
   \<and> (case dms_to_dd (Some [- 33, 52, 0]) of
         None \<Rightarrow> False
       | Some r \<Rightarrow> \<bar>r - (- 338667 / 10000)\<bar> \<le> 1 / 10000)"
  by (simp add: dms_to_dd_def Let_def)

subsection \<open>Unit scale\<close>

lemma getattr_Prefix_Some: "getattr_Prefix lu = Some p \<longleftrightarrow> (\<exists>t. lu = IfcSIUnit t (Value p))"
  by (cases lu rule: getattr_Prefix.cases) auto

lemma get_length_factor_values: "get_length_factor m = 1 / 1000 \<or> get_length_factor m = 1"
  by (simp add: get_length_factor_def split: sum.splits bool.splits)


lemma is_si_length_iff: "is_si_length u \<longleftrightarrow> (\<exists>p. u = IfcSIUnit ''LENGTHUNIT'' p)"
  by (cases u) auto

lemma find_first_length:
  "(\<forall>p. IfcSIUnit ''LENGTHUNIT'' p \<notin> set pre) \<Longrightarrow>
   find is_si_length (pre @ IfcSIUnit ''LENGTHUNIT'' pf # post) = Some (IfcSIUnit ''LENGTHUNIT'' pf)"
  by (induction pre) (auto simp: is_si_length_iff)

lemma find_no_length:
  "find is_si_length ua = None \<longleftrightarrow> (\<forall>p. IfcSIUnit ''LENGTHUNIT'' p \<notin> set ua)"
  by (auto simp: find_None_iff is_si_length_iff)

lemma find_length_split:
  "find is_si_length ua = Some lu \<Longrightarrow>
   \<exists>pre post pf. ua = pre @ IfcSIUnit ''LENGTHUNIT'' pf # post \<and> lu = IfcSIUnit ''LENGTHUNIT'' pf
     \<and> (\<forall>p. IfcSIUnit ''LENGTHUNIT'' p \<notin> set pre)"
proof (induction ua)
  case Nil
  then show ?case by simp
next
  case (Cons u ua)
  show ?case
  proof (cases "is_si_length u")
    case True
    then obtain pf where u: "u = IfcSIUnit ''LENGTHUNIT'' pf"
      by (auto simp: is_si_length_iff)
    with Cons.prems have "lu = IfcSIUnit ''LENGTHUNIT'' pf"
      by simp
    with u have "u # ua = [] @ IfcSIUnit ''LENGTHUNIT'' pf # ua \<and> lu = IfcSIUnit ''LENGTHUNIT'' pf
        \<and> (\<forall>p. IfcSIUnit ''LENGTHUNIT'' p \<notin> set [])"
      by simp
    then show ?thesis by blast
  next
    case False
    with Cons.prems have "find is_si_length ua = Some lu"
      by simp
    from Cons.IH [OF this] obtain pre post pf where
      ua: "ua = pre @ IfcSIUnit ''LENGTHUNIT'' pf # post" and lu: "lu = IfcSIUnit ''LENGTHUNIT'' pf"
      and pre: "\<forall>p. IfcSIUnit ''LENGTHUNIT'' p \<notin> set pre"
      by blast
    from False have "\<forall>p. u \<noteq> IfcSIUnit ''LENGTHUNIT'' p"
      by (simp add: is_si_length_iff)
    with ua lu pre have "u # ua = (u # pre) @ IfcSIUnit ''LENGTHUNIT'' pf # post
        \<and> lu = IfcSIUnit ''LENGTHUNIT'' pf \<and> (\<forall>p. IfcSIUnit ''LENGTHUNIT'' p \<notin> set (u # pre))"
      by auto
    then show ?thesis by blast
  qed
qed

lemma get_length_factor_first:
  assumes "IfcUnitAssignment m = (pre @ IfcSIUnit ''LENGTHUNIT'' pf # post) # rest"
    and "\<forall>p. IfcSIUnit ''LENGTHUNIT'' p \<notin> set pre"
  shows "get_length_factor m = (if pf = Value ''MILLI'' then 1 / 1000 else 1)"
  using assms(1) find_first_length [OF assms(2), of pf post]
  by (cases pf) (simp_all add: get_length_factor_def length_factor_try_def)

lemma get_length_factor_milli:
  assumes "get_length_factor m = 1 / 1000"
  shows "\<exists>pre post rest.
           IfcUnitAssignment m = (pre @ IfcSIUnit ''LENGTHUNIT'' (Value ''MILLI'') # post) # rest
           \<and> (\<forall>p. IfcSIUnit ''LENGTHUNIT'' p \<notin> set pre)"
proof -
  from assms obtain ua rest lu where m: "IfcUnitAssignment m = ua # rest"
    and f: "find is_si_length ua = Some lu" and p: "getattr_Prefix lu = Some ''MILLI''"
    by (auto simp: get_length_factor_def length_factor_try_def
             split: sum.splits bool.splits list.splits option.splits)
  from find_length_split [OF f] obtain pre post pf where
    ua: "ua = pre @ IfcSIUnit ''LENGTHUNIT'' pf # post" and lu: "lu = IfcSIUnit ''LENGTHUNIT'' pf"
    and pre: "\<forall>p. IfcSIUnit ''LENGTHUNIT'' p \<notin> set pre"
    by blast
  from p lu have "pf = Value ''MILLI''"
    by (cases pf) simp_all
  with m ua pre show ?thesis by blast
qed

text \<open>
  C8. \<open>get_length_factor\<close> is total and returns \<open>0.001\<close> or \<open>1.0\<close>. It returns \<open>0.001\<close>
  exactly when, in the units of the first unit assignment, the first SI unit of type
  \<open>LENGTHUNIT\<close> has the prefix \<open>MILLI\<close>; a \<open>MILLI\<close> prefix on a unit of another type does
  not count. Every exception of the lookup is swallowed with the result \<open>1.0\<close>: a missing
  unit assignment (\<open>IndexError\<close>) and an assignment without SI length unit
  (\<open>StopIteration\<close>); and so is a first SI length unit whose prefix is absent, null or
  anything but \<open>MILLI\<close>.
\<close>

theorem get_length_factor_swallows:
  "(get_length_factor m = 1 / 1000 \<or> get_length_factor m = 1)
   \<and> (get_length_factor m = 1 / 1000 \<longleftrightarrow>
        (\<exists>pre post rest.
           IfcUnitAssignment m = (pre @ IfcSIUnit ''LENGTHUNIT'' (Value ''MILLI'') # post) # rest
           \<and> (\<forall>p. IfcSIUnit ''LENGTHUNIT'' p \<notin> set pre)))
   \<and> (\<forall>e. length_factor_try m = Inl e \<longrightarrow> get_length_factor m = 1)
   \<and> (IfcUnitAssignment m = [] \<longrightarrow>
        length_factor_try m = Inl IndexError \<and> get_length_factor m = 1)
   \<and> (\<forall>ua rest. IfcUnitAssignment m = ua # rest \<and> (\<forall>p. IfcSIUnit ''LENGTHUNIT'' p \<notin> set ua) \<longrightarrow>
        length_factor_try m = Inl StopIteration \<and> get_length_factor m = 1)
   \<and> (\<forall>pre pf post rest.
        IfcUnitAssignment m = (pre @ IfcSIUnit ''LENGTHUNIT'' pf # post) # rest
        \<and> (\<forall>p. IfcSIUnit ''LENGTHUNIT'' p \<notin> set pre) \<and> pf \<noteq> Value ''MILLI'' \<longrightarrow>
        get_length_factor m = 1)"
proof -
  have milli: "get_length_factor m = 1 / 1000 \<longleftrightarrow>
        (\<exists>pre post rest.
           IfcUnitAssignment m = (pre @ IfcSIUnit ''LENGTHUNIT'' (Value ''MILLI'') # post) # rest
           \<and> (\<forall>p. IfcSIUnit ''LENGTHUNIT'' p \<notin> set pre))"
  proof
    assume "get_length_factor m = 1 / 1000"
    then show "\<exists>pre post rest.
           IfcUnitAssignment m = (pre @ IfcSIUnit ''LENGTHUNIT'' (Value ''MILLI'') # post) # rest
           \<and> (\<forall>p. IfcSIUnit ''LENGTHUNIT'' p \<notin> set pre)"
      by (rule get_length_factor_milli)
  next
    assume "\<exists>pre post rest.
           IfcUnitAssignment m = (pre @ IfcSIUnit ''LENGTHUNIT'' (Value ''MILLI'') # post) # rest
           \<and> (\<forall>p. IfcSIUnit ''LENGTHUNIT'' p \<notin> set pre)"
    then obtain pre post rest where
      "IfcUnitAssignment m = (pre @ IfcSIUnit ''LENGTHUNIT'' (Value ''MILLI'') # post) # rest"
      and "\<forall>p. IfcSIUnit ''LENGTHUNIT'' p \<notin> set pre"
      by blast
    from get_length_factor_first [OF this] show "get_length_factor m = 1 / 1000"
      by simp
  qed
  have swallowed: "\<forall>e. length_factor_try m = Inl e \<longrightarrow> get_length_factor m = 1"
    by (simp add: get_length_factor_def)
  have missing: "IfcUnitAssignment m = [] \<longrightarrow>
        length_factor_try m = Inl IndexError \<and> get_length_factor m = 1"
    by (simp add: get_length_factor_def length_factor_try_def)
  have no_unit: "\<forall>ua rest. IfcUnitAssignment m = ua # rest
          \<and> (\<forall>p. IfcSIUnit ''LENGTHUNIT'' p \<notin> set ua) \<longrightarrow>
        length_factor_try m = Inl StopIteration \<and> get_length_factor m = 1"
    by (simp add: get_length_factor_def length_factor_try_def find_no_length [symmetric])
  have other: "\<forall>pre pf post rest.
        IfcUnitAssignment m = (pre @ IfcSIUnit ''LENGTHUNIT'' pf # post) # rest
        \<and> (\<forall>p. IfcSIUnit ''LENGTHUNIT'' p \<notin> set pre) \<and> pf \<noteq> Value ''MILLI'' \<longrightarrow>
        get_length_factor m = 1"
  proof (intro allI impI)
    fix pre pf post rest
    assume h: "IfcUnitAssignment m = (pre @ IfcSIUnit ''LENGTHUNIT'' pf # post) # rest
        \<and> (\<forall>p. IfcSIUnit ''LENGTHUNIT'' p \<notin> set pre) \<and> pf \<noteq> Value ''MILLI''"
    then have m: "IfcUnitAssignment m = (pre @ IfcSIUnit ''LENGTHUNIT'' pf # post) # rest"
      and pre: "\<forall>p. IfcSIUnit ''LENGTHUNIT'' p \<notin> set pre" and pf: "pf \<noteq> Value ''MILLI''"
      by blast+
    from get_length_factor_first [OF m pre] pf show "get_length_factor m = 1"
      by simp
  qed
  show ?thesis
    by (intro conjI)
       (rule get_length_factor_values, rule milli, rule swallowed, rule missing, rule no_unit,
        rule other)
qed

theorem get_length_factor_swallows_witness:
  "get_length_factor (empty_model\<lparr>IfcUnitAssignment :=
       [[IfcSIUnit ''AREAUNIT'' Null, IfcSIUnit ''LENGTHUNIT'' (Value ''MILLI'')]]\<rparr>) = 1 / 1000
   \<and> get_length_factor (empty_model\<lparr>IfcUnitAssignment :=
       [[IfcSIUnit ''AREAUNIT'' (Value ''MILLI''), IfcSIUnit ''LENGTHUNIT'' Null]]\<rparr>) = 1
   \<and> length_factor_try empty_model = Inl IndexError
   \<and> get_length_factor empty_model = 1
   \<and> length_factor_try (empty_model\<lparr>IfcUnitAssignment :=
       [[OtherUnit, IfcSIUnit ''AREAUNIT'' (Value ''MILLI'')]]\<rparr>) = Inl StopIteration
   \<and> get_length_factor (empty_model\<lparr>IfcUnitAssignment :=
       [[OtherUnit, IfcSIUnit ''AREAUNIT'' (Value ''MILLI'')]]\<rparr>) = 1
   \<and> get_length_factor
        (empty_model\<lparr>IfcUnitAssignment := [[IfcSIUnit ''LENGTHUNIT'' Absent]]\<rparr>) = 1"
proof -
  let ?mm = "empty_model\<lparr>IfcUnitAssignment :=
       [[IfcSIUnit ''AREAUNIT'' Null, IfcSIUnit ''LENGTHUNIT'' (Value ''MILLI'')]]\<rparr>"
  let ?area = "empty_model\<lparr>IfcUnitAssignment :=
       [[IfcSIUnit ''AREAUNIT'' (Value ''MILLI''), IfcSIUnit ''LENGTHUNIT'' Null]]\<rparr>"
  let ?none = "empty_model\<lparr>IfcUnitAssignment :=
       [[OtherUnit, IfcSIUnit ''AREAUNIT'' (Value ''MILLI'')]]\<rparr>"
  let ?bare = "empty_model\<lparr>IfcUnitAssignment := [[IfcSIUnit ''LENGTHUNIT'' Absent]]\<rparr>"
  have "IfcUnitAssignment ?mm =
          ([IfcSIUnit ''AREAUNIT'' Null] @ IfcSIUnit ''LENGTHUNIT'' (Value ''MILLI'') # []) # []
        \<and> (\<forall>p. IfcSIUnit ''LENGTHUNIT'' p \<notin> set [IfcSIUnit ''AREAUNIT'' Null])"
    by simp
  then have "\<exists>pre post rest.
           IfcUnitAssignment ?mm = (pre @ IfcSIUnit ''LENGTHUNIT'' (Value ''MILLI'') # post) # rest
           \<and> (\<forall>p. IfcSIUnit ''LENGTHUNIT'' p \<notin> set pre)"
    by blast
  with get_length_factor_swallows [of ?mm] have a: "get_length_factor ?mm = 1 / 1000"
    by (simp only:)
  have "IfcUnitAssignment ?area =
          ([IfcSIUnit ''AREAUNIT'' (Value ''MILLI'')] @ IfcSIUnit ''LENGTHUNIT'' Null # []) # []
        \<and> (\<forall>p. IfcSIUnit ''LENGTHUNIT'' p \<notin> set [IfcSIUnit ''AREAUNIT'' (Value ''MILLI'')])
        \<and> Null \<noteq> Value ''MILLI''"
    by simp
  with get_length_factor_swallows [of ?area] have b: "get_length_factor ?area = 1"
    by blast
  have "IfcUnitAssignment empty_model = []"
    by (simp add: empty_model_def)
  with get_length_factor_swallows [of empty_model]
  have c: "length_factor_try empty_model = Inl IndexError \<and> get_length_factor empty_model = 1"
    by blast
  have "IfcUnitAssignment ?none = [OtherUnit, IfcSIUnit ''AREAUNIT'' (Value ''MILLI'')] # []
        \<and> (\<forall>p. IfcSIUnit ''LENGTHUNIT'' p
                 \<notin> set [OtherUnit, IfcSIUnit ''AREAUNIT'' (Value ''MILLI'')])"
    by simp
  with get_length_factor_swallows [of ?none]
  have d: "length_factor_try ?none = Inl StopIteration \<and> get_length_factor ?none = 1"
    by blast
  have "IfcUnitAssignment ?bare = ([] @ IfcSIUnit ''LENGTHUNIT'' Absent # []) # []
        \<and> (\<forall>p. IfcSIUnit ''LENGTHUNIT'' p \<notin> set []) \<and> Absent \<noteq> Value ''MILLI''"
    by simp
  with get_length_factor_swallows [of ?bare] have e: "get_length_factor ?bare = 1"
    by blast
  from a b c d e show ?thesis
    by (simp only:)
qed

subsection \<open>Global origin\<close>

lemma or0_Some: "or0 (Some x) = x"
  by simp


text \<open>
  C5. When a map-conversion object exists, the global origin is its eastings, northings and
  orthogonal height, each times the unit scale, the height unset when the object has none;
  nothing of the site is read. Only without a map-conversion object does the first site's
  local placement give the origin: its coordinates times the unit scale, the third unset when
  only two are given. When there is neither a map-conversion object nor a local placement of
  the first site, the result has no field and all three read as unset.
\<close>

theorem get_global_coords_sources:
  "(\<forall>mc rest. IfcMapConversion m = Some (mc # rest) \<longrightarrow>
      get_global_coords m =
        Inr [(''X_global_m'', Some (Eastings mc * get_length_factor m)),
             (''Y_global_m'', Some (Northings mc * get_length_factor m)),
             (''Z_global_m'',
                map_option (\<lambda>h. h * get_length_factor m) (OrthogonalHeight mc))])
   \<and> (\<forall>s ss x y.
        (IfcMapConversion m = None \<or> IfcMapConversion m = Some [])
        \<and> IfcSite m = s # ss \<and> ObjectPlacement s = Some (IfcLocalPlacement [x, y]) \<longrightarrow>
        get_global_coords m =
          Inr [(''X_global_m'', Some (x * get_length_factor m)),
               (''Y_global_m'', Some (y * get_length_factor m)),
               (''Z_global_m'', None)])
   \<and> (\<forall>s ss x y z.
        (IfcMapConversion m = None \<or> IfcMapConversion m = Some [])
        \<and> IfcSite m = s # ss \<and> ObjectPlacement s = Some (IfcLocalPlacement [x, y, z]) \<longrightarrow>
        get_global_coords m =
          Inr [(''X_global_m'', Some (x * get_length_factor m)),
               (''Y_global_m'', Some (y * get_length_factor m)),
               (''Z_global_m'', Some (z * get_length_factor m))])
   \<and> ((IfcMapConversion m = None \<or> IfcMapConversion m = Some [])
        \<and> (\<forall>s ss c. IfcSite m = s # ss \<longrightarrow> ObjectPlacement s \<noteq> Some (IfcLocalPlacement c)) \<longrightarrow>
        get_global_coords m = Inr []
        \<and> dict_get [] ''X_global_m'' = None
        \<and> dict_get [] ''Y_global_m'' = None
        \<and> dict_get [] ''Z_global_m'' = None)"
proof -
  have from_map: "\<forall>mc rest. IfcMapConversion m = Some (mc # rest) \<longrightarrow>
      get_global_coords m =
        Inr [(''X_global_m'', Some (Eastings mc * get_length_factor m)),
             (''Y_global_m'', Some (Northings mc * get_length_factor m)),
             (''Z_global_m'',
                map_option (\<lambda>h. h * get_length_factor m) (OrthogonalHeight mc))]"
    by (auto simp: get_global_coords_def Let_def)
  have two: "\<forall>s ss x y.
        (IfcMapConversion m = None \<or> IfcMapConversion m = Some [])
        \<and> IfcSite m = s # ss \<and> ObjectPlacement s = Some (IfcLocalPlacement [x, y]) \<longrightarrow>
        get_global_coords m =
          Inr [(''X_global_m'', Some (x * get_length_factor m)),
               (''Y_global_m'', Some (y * get_length_factor m)),
               (''Z_global_m'', None)]"
    by (auto simp: get_global_coords_def placement_coords_def Let_def)
  have three: "\<forall>s ss x y z.
        (IfcMapConversion m = None \<or> IfcMapConversion m = Some [])
        \<and> IfcSite m = s # ss \<and> ObjectPlacement s = Some (IfcLocalPlacement [x, y, z]) \<longrightarrow>
        get_global_coords m =
          Inr [(''X_global_m'', Some (x * get_length_factor m)),
               (''Y_global_m'', Some (y * get_length_factor m)),
               (''Z_global_m'', Some (z * get_length_factor m))]"
    by (auto simp: get_global_coords_def placement_coords_def Let_def)
  have neither: "(IfcMapConversion m = None \<or> IfcMapConversion m = Some [])
        \<and> (\<forall>s ss c. IfcSite m = s # ss \<longrightarrow> ObjectPlacement s \<noteq> Some (IfcLocalPlacement c)) \<longrightarrow>
        get_global_coords m = Inr []
        \<and> dict_get [] ''X_global_m'' = None
        \<and> dict_get [] ''Y_global_m'' = None
        \<and> dict_get [] ''Z_global_m'' = None"
    by (auto simp: get_global_coords_def dict_get_def Let_def
             split: list.splits option.splits placement.splits)
  from from_map two three neither show ?thesis by blast
qed

theorem get_global_coords_sources_witness:
  "get_global_coords surveyed_model =
     Inr [(''X_global_m'', Some 1), (''Y_global_m'', Some 2), (''Z_global_m'', Some 5)]
   \<and> get_global_coords (surveyed_model\<lparr>IfcMapConversion := None\<rparr>) =
       Inr [(''X_global_m'', Some (7 / 1000)), (''Y_global_m'', Some (8 / 1000)),
            (''Z_global_m'', Some (9 / 1000))]
   \<and> get_global_coords
        (empty_model\<lparr>IfcSite := [placed_site (Some (IfcLocalPlacement [7, 8]))]\<rparr>) =
       Inr [(''X_global_m'', Some 7), (''Y_global_m'', Some 8), (''Z_global_m'', None)]
   \<and> get_global_coords (empty_model\<lparr>IfcSite := [placed_site None]\<rparr>) = Inr []"
  using get_global_coords_sources [of surveyed_model]
    get_global_coords_sources [of "surveyed_model\<lparr>IfcMapConversion := None\<rparr>"]
    get_global_coords_sources
      [of "empty_model\<lparr>IfcSite := [placed_site (Some (IfcLocalPlacement [7, 8]))]\<rparr>"]
    get_global_coords_sources [of "empty_model\<lparr>IfcSite := [placed_site None]\<rparr>"]
  by (simp add: surveyed_model_def empty_model_def millimetres_def placed_site_def
        get_length_factor_def length_factor_try_def)

subsection \<open>Summary table\<close>

lemma map_fst_items: "map fst (items d) = map fst d"
  by (simp add: items_def case_prod_unfold)

lemma map_snd_items: "map snd (items d) = map (of_opt \<circ> snd) d"
  by (simp add: items_def case_prod_unfold)

lemma build_tables_summary:
  "build_tables fuel ev p m = Some (Inr t) \<Longrightarrow>
     \<exists>glob. get_global_coords m = Inr glob
       \<and> summary t = summary_pairs ev p m glob (get_site_geolocation m)"
  by (auto simp: build_tables_def Let_def split: sum.splits option.splits)

lemma global_coords_keys:
  "get_global_coords m = Inr glob \<Longrightarrow>
     map fst glob =
       (if first_map_conversion m \<noteq> None
           \<or> (\<exists>s ss c. IfcSite m = s # ss \<and> ObjectPlacement s = Some (IfcLocalPlacement c))
        then [''X_global_m'', ''Y_global_m'', ''Z_global_m''] else [])"
  by (auto simp: get_global_coords_def placement_coords_def Let_def
           split: option.splits list.splits placement.splits)

lemma site_geolocation_keys:
  "map fst (get_site_geolocation m) =
     (if IfcSite m = [] then [] else [''latitude'', ''longitude'', ''elevation_m''])"
  by (simp add: get_site_geolocation_def split: list.splits)

text \<open>
  C4, as the code has it. Whenever the tables of a model are built, the summary rows are, in
  this order: file name, human-readable size, schema identifier, then the fields of the
  global origin, then the fields of the geolocation, every field that is present giving one
  row, with an empty value when it is unset. The three global-origin rows are present
  exactly when a map-conversion object exists or the first site has a local placement, and
  the three geolocation rows exactly when the model has a site; otherwise the rows of that
  group are not emitted.
\<close>

theorem summary_rows_order:
  assumes "build_tables fuel ev p m = Some (Inr t)"
  shows "\<exists>glob. get_global_coords m = Inr glob
     \<and> map fst (summary t) =
         [''fichier'', ''taille'', ''sch'' @ e_acute @ ''ma'']
         @ (if first_map_conversion m \<noteq> None
               \<or> (\<exists>s ss c. IfcSite m = s # ss \<and> ObjectPlacement s = Some (IfcLocalPlacement c))
            then [''X_global_m'', ''Y_global_m'', ''Z_global_m''] else [])
         @ (if IfcSite m = [] then [] else [''latitude'', ''longitude'', ''elevation_m''])
     \<and> map snd (summary t) =
         [VStr (stem p @ suffix p), VStr (human_readable_size (st_size ev p)),
          VStr (schema_id m)]
         @ map (of_opt \<circ> snd) glob @ map (of_opt \<circ> snd) (get_site_geolocation m)"
proof -
  from assms obtain glob where g: "get_global_coords m = Inr glob"
    and s: "summary t = summary_pairs ev p m glob (get_site_geolocation m)"
    using build_tables_summary by blast
  have keys: "map fst (summary t) =
      [''fichier'', ''taille'', ''sch'' @ e_acute @ ''ma'']
      @ map fst glob @ map fst (get_site_geolocation m)"
    by (simp add: s summary_pairs_def map_fst_items)
  have vals: "map snd (summary t) =
      [VStr (stem p @ suffix p), VStr (human_readable_size (st_size ev p)), VStr (schema_id m)]
      @ map (of_opt \<circ> snd) glob @ map (of_opt \<circ> snd) (get_site_geolocation m)"
    by (simp add: s summary_pairs_def map_snd_items)
  show ?thesis
    using g keys vals global_coords_keys [OF g] site_geolocation_keys [of m] by auto
qed

theorem summary_rows_order_witness:
  "\<exists>t. build_tables 0 (env_of (\<lambda>p. Inr empty_model)) (ifc ''a'')
          (empty_model\<lparr>IfcSite := [placed_site (Some (IfcLocalPlacement [7, 8]))]\<rparr>) =
        Some (Inr t)
     \<and> summary t =
         [(''fichier'', VStr ''a.ifc''),
          (''taille'', VStr (human_readable_size 0)),
          (''sch'' @ e_acute @ ''ma'', VStr ''IFC4''),
          (''X_global_m'', VNum 7), (''Y_global_m'', VNum 8), (''Z_global_m'', VNone),
          (''latitude'', VNum (733 / 15)), (''longitude'', VNone), (''elevation_m'', VNone)]"
proof -
  have built: "build_tables 0 (env_of (\<lambda>p. Inr empty_model)) (ifc ''a'')
       (empty_model\<lparr>IfcSite := [placed_site (Some (IfcLocalPlacement [7, 8]))]\<rparr>) =
     Some (Inr \<lparr>summary =
                  [(''fichier'', VStr ''a.ifc''),
                   (''taille'', VStr (human_readable_size 0)),
                   (''sch'' @ e_acute @ ''ma'', VStr ''IFC4''),
                   (''X_global_m'', VNum 7), (''Y_global_m'', VNum 8),
                   (''Z_global_m'', VNone),
                   (''latitude'', VNum (733 / 15)), (''longitude'', VNone),
                   (''elevation_m'', VNone)],
                levels = [], hierarchy = [], entities = []\<rparr>)"
    by (simp add: build_tables_def get_site_geolocation_def get_global_coords_def
          placement_coords_def get_length_factor_def length_factor_try_def
          flatten_hierarchy_def summary_pairs_def items_def levels_rows_def get_levels_def
          level_alt_def level_ngf_def ent_rows_def entity_counter_def dms_to_dd_def
          empty_model_def placed_site_def env_of_def ifc_def Let_def)
  from summary_rows_order [OF built] built show ?thesis
    by simp
qed

text \<open>
  C4 as stated fails: a model with no site and no map-conversion object has the three
  leading rows only, no global-origin row and no geolocation row.
\<close>

theorem summary_rows_absent_counterexample:
  "map_option (map_sum id (map fst \<circ> summary))
     (build_tables 0 (env_of (\<lambda>p. Inr empty_model)) (ifc ''a'') empty_model) =
   Some (Inr [''fichier'', ''taille'', ''sch'' @ e_acute @ ''ma''])"
  by (simp add: build_tables_def get_site_geolocation_def get_global_coords_def
        get_length_factor_def length_factor_try_def flatten_hierarchy_def summary_pairs_def
        items_def empty_model_def Let_def)

subsection \<open>Levels table\<close>




lemma build_tables_levels:
  "build_tables fuel ev p m = Some (Inr t) \<Longrightarrow>
     \<exists>glob. get_global_coords m = Inr glob \<and> levels t = levels_rows m glob"
  by (auto simp: build_tables_def Let_def split: sum.splits option.splits)




subsection \<open>Entities table\<close>

lemma distinct_count_entity:
  "distinct (map fst d) \<Longrightarrow> distinct (map fst (count_entity d obj))"
  by (simp add: count_entity_def Let_def distinct_update)

lemma distinct_foldl_count_entity:
  "distinct (map fst d) \<Longrightarrow> distinct (map fst (foldl count_entity d xs))"
  by (induction xs arbitrary: d) (simp_all add: distinct_count_entity)

lemma map_of_count_entity:
  "map_of (count_entity d obj) k =
     (if k = entity_key obj
      then Some ((case map_of d k of None \<Rightarrow> 0 | Some n \<Rightarrow> n) + 1)
      else map_of d k)"
  by (simp add: count_entity_def Let_def update_conv')

lemma map_of_foldl_count_entity:
  "map_of (foldl count_entity d xs) k =
     (if k \<in> entity_key ` set xs
      then Some ((case map_of d k of None \<Rightarrow> 0 | Some n \<Rightarrow> n)
                 + int (length (filter (\<lambda>obj. entity_key obj = k) xs)))
      else map_of d k)"
proof (induction xs arbitrary: d)
  case Nil
  then show ?case by simp
next
  case (Cons x xs)
  show ?case
    by (simp add: Cons.IH map_of_count_entity)
       (auto simp: filter_empty_conv image_iff split: option.splits)
qed

lemma entity_counter_counts:
  "map_of (entity_counter m) k =
     (if k \<in> entity_key ` set (IfcProduct m)
      then Some (int (length (filter (\<lambda>obj. entity_key obj = k) (IfcProduct m))))
      else None)"
  by (simp add: entity_counter_def map_of_foldl_count_entity)

lemma entity_counter_distinct: "distinct (map fst (entity_counter m))"
  by (simp add: entity_counter_def distinct_foldl_count_entity)

lemma entity_counter_keys: "fst ` set (entity_counter m) = entity_key ` set (IfcProduct m)"
proof -
  have "dom (map_of (entity_counter m)) = entity_key ` set (IfcProduct m)"
    by (auto simp: entity_counter_counts dom_def split: if_splits)
  then show ?thesis by (simp add: dom_map_of_conv_image_fst)
qed

lemma ent_rows_mset: "mset (ent_rows m) = mset (map ent_row (entity_counter m))"
  by (simp add: ent_rows_def)

lemma ent_rows_sorted:
  "sorted_wrt (\<lambda>(k1, t1, n1) (k2, t2, n2). n2 < n1 \<or> (n1 = n2 \<and> k1 \<le> k2)) (ent_rows m)"
proof -
  let ?key = "\<lambda>x :: (string \<times> string option) \<times> int. (- snd x, fst (fst x))"
  have "sorted (map ?key (sort_key ?key (entity_counter m)))"
    by (rule sorted_sort_key)
  then have "sorted_wrt (\<lambda>x y. ?key x \<le> ?key y) (sort_key ?key (entity_counter m))"
    by (simp add: sorted_map)
  then have "sorted_wrt (\<lambda>x y. (case ent_row x of (k1, t1, n1) \<Rightarrow>
                 (case ent_row y of (k2, t2, n2) \<Rightarrow> n2 < n1 \<or> (n1 = n2 \<and> k1 \<le> k2))))
               (sort_key ?key (entity_counter m))"
    by (rule sorted_wrt_mono_rel [rotated]) (auto simp: less_eq_prod_def)
  then show ?thesis
    by (simp add: ent_rows_def sorted_wrt_map case_prod_unfold)
qed

lemma ent_row_inj:
  "typ1 \<noteq> Some dash \<Longrightarrow> typ1 \<noteq> Some [] \<Longrightarrow> typ2 \<noteq> Some dash \<Longrightarrow> typ2 \<noteq> Some [] \<Longrightarrow>
   fst (ent_row ((k1, typ1), n1)) = fst (ent_row ((k2, typ2), n2)) \<Longrightarrow>
   fst (snd (ent_row ((k1, typ1), n1))) = fst (snd (ent_row ((k2, typ2), n2))) \<Longrightarrow>
   (k1, typ1) = (k2, typ2)"
  by (auto split: option.splits if_splits)

lemma ent_rows_distinct:
  assumes "\<forall>obj \<in> set (IfcProduct m). subtype_of obj \<noteq> Some dash \<and> subtype_of obj \<noteq> Some []"
  shows "distinct (map (\<lambda>(k, t, n). (k, t)) (ent_rows m))"
proof -
  let ?g = "\<lambda>x. (fst (ent_row x), fst (snd (ent_row x)))"
  have keys: "\<forall>x \<in> set (entity_counter m). snd (fst x) \<noteq> Some dash \<and> snd (fst x) \<noteq> Some []"
  proof
    fix x assume "x \<in> set (entity_counter m)"
    then have "fst x \<in> entity_key ` set (IfcProduct m)"
      using entity_counter_keys [of m] by force
    with assms show "snd (fst x) \<noteq> Some dash \<and> snd (fst x) \<noteq> Some []"
      by (auto simp: entity_key_def)
  qed
  have "inj_on ?g (set (entity_counter m))"
  proof (rule inj_onI)
    fix x y assume x: "x \<in> set (entity_counter m)" and y: "y \<in> set (entity_counter m)"
      and eq: "?g x = ?g y"
    obtain k1 t1 n1 where x': "x = ((k1, t1), n1)" by (metis surj_pair)
    obtain k2 t2 n2 where y': "y = ((k2, t2), n2)" by (metis surj_pair)
    from keys x y x' y' have "t1 \<noteq> Some dash" "t1 \<noteq> Some []" "t2 \<noteq> Some dash" "t2 \<noteq> Some []"
      by auto
    with eq x' y' have "(k1, t1) = (k2, t2)"
      using ent_row_inj [of t1 t2 k1 n1 k2 n2] by simp
    then have "fst x = fst y" by (simp add: x' y')
    with entity_counter_distinct [of m] x y show "x = y"
      by (auto simp: distinct_map dest: inj_onD)
  qed
  with entity_counter_distinct [of m] have "distinct (map ?g (entity_counter m))"
    by (auto simp: distinct_map)
  then have d: "distinct (map ?g (entity_counter m))" .
  have meq: "mset (map ?g (sort_key (\<lambda>x. (- snd x, fst (fst x))) (entity_counter m))) =
      mset (map ?g (entity_counter m))"
    by simp
  have "distinct (map ?g (sort_key (\<lambda>x. (- snd x, fst (fst x))) (entity_counter m)))"
    using mset_eq_imp_distinct_iff [OF meq] d by simp
  then show ?thesis
    by (simp add: ent_rows_def case_prod_unfold comp_def)
qed


text \<open>
  C7, as the code has it. The entity counter has each key (kind, sub-type) once, the
  sub-type being a string or unset, and the count stored under a key is the number of
  products with that key. The sub-type of a product is its predefined type when that
  attribute is present and not null, else its object type when that is a non-empty string,
  else unset. The rows of the table are the entries of the counter, an unset sub-type shown
  as the dash; they are ordered by count descending, equal counts by kind name ascending.
  The dash is no key of the counter: as long as no sub-type string is itself the dash or
  empty, no two rows show the same kind and sub-type. Three products of kind X without
  sub-type and one of kind Y with sub-type S give the rows (X, dash, 3), (Y, S, 1).
\<close>

theorem entities_table_counts:
  "distinct (map fst (entity_counter m))
   \<and> (\<forall>k. map_of (entity_counter m) k =
          (if k \<in> entity_key ` set (IfcProduct m)
           then Some (int (length (filter (\<lambda>obj. entity_key obj = k) (IfcProduct m))))
           else None))
   \<and> (\<forall>obj. entity_key obj =
          (is_a obj,
           case PredefinedType obj of
             Value p \<Rightarrow> Some p
           | _ \<Rightarrow> (case ObjectType obj of
                     Value t \<Rightarrow> if t = [] then None else Some t
                   | _ \<Rightarrow> None)))
   \<and> mset (ent_rows m) = mset (map ent_row (entity_counter m))
   \<and> (\<forall>kind t n. ent_row ((kind, None), n) = (kind, dash, n)
          \<and> (t \<noteq> [] \<longrightarrow> ent_row ((kind, Some t), n) = (kind, t, n)))
   \<and> sorted_wrt (\<lambda>(k1, t1, n1) (k2, t2, n2). n2 < n1 \<or> (n1 = n2 \<and> k1 \<le> k2)) (ent_rows m)
   \<and> ((\<forall>obj \<in> set (IfcProduct m). subtype_of obj \<noteq> Some dash \<and> subtype_of obj \<noteq> Some [])
        \<longrightarrow> distinct (map (\<lambda>(k, t, n). (k, t)) (ent_rows m)))
   \<and> ent_rows counted_model = [(''X'', dash, 3), (''Y'', ''S'', 1)]"
proof -
  have key: "\<forall>obj. entity_key obj =
          (is_a obj,
           case PredefinedType obj of
             Value p \<Rightarrow> Some p
           | _ \<Rightarrow> (case ObjectType obj of
                     Value t \<Rightarrow> if t = [] then None else Some t
                   | _ \<Rightarrow> None))"
    by (auto simp: entity_key_def subtype_of_def split: attr.splits)
  have row: "\<forall>kind t n. ent_row ((kind, None), n) = (kind, dash, n)
          \<and> (t \<noteq> [] \<longrightarrow> ent_row ((kind, Some t), n) = (kind, t, n))"
    by simp
  have "entity_counter counted_model = [((''X'', None), 3), ((''Y'', Some ''S''), 1)]"
    by (simp add: entity_counter_def count_entity_def entity_key_def subtype_of_def
          counted_model_def empty_model_def product_def Let_def)
  then have example: "ent_rows counted_model = [(''X'', dash, 3), (''Y'', ''S'', 1)]"
    by (simp add: ent_rows_def)
  have counts: "\<forall>k. map_of (entity_counter m) k =
          (if k \<in> entity_key ` set (IfcProduct m)
           then Some (int (length (filter (\<lambda>obj. entity_key obj = k) (IfcProduct m))))
           else None)"
    by (simp add: entity_counter_counts)
  have dist: "(\<forall>obj \<in> set (IfcProduct m). subtype_of obj \<noteq> Some dash \<and> subtype_of obj \<noteq> Some [])
        \<longrightarrow> distinct (map (\<lambda>(k, t, n). (k, t)) (ent_rows m))"
    using ent_rows_distinct [of m] by blast
  show ?thesis
    by (intro conjI)
       (rule entity_counter_distinct, rule counts, rule key, rule ent_rows_mset, rule row,
        rule ent_rows_sorted, rule dist, rule example)
qed

theorem entities_table_counts_witness:
  "ent_rows counted_model = [(''X'', dash, 3), (''Y'', ''S'', 1)]
   \<and> distinct (map (\<lambda>(k, t, n). (k, t)) (ent_rows counted_model))
   \<and> map_of (entity_counter counted_model) (''X'', None) = Some 3"
proof -
  have "\<forall>obj \<in> set (IfcProduct counted_model).
          subtype_of obj \<noteq> Some dash \<and> subtype_of obj \<noteq> Some []"
    by (simp add: counted_model_def empty_model_def product_def subtype_of_def dash_def)
  moreover have "(''X'', None) \<in> entity_key ` set (IfcProduct counted_model)"
    by (simp add: counted_model_def empty_model_def product_def subtype_of_def
          entity_key_def)
  moreover have "length (filter (\<lambda>obj. entity_key obj = (''X'', None))
                    (IfcProduct counted_model)) = 3"
    by (simp add: counted_model_def empty_model_def product_def subtype_of_def
          entity_key_def)
  ultimately show ?thesis
    using entities_table_counts [of counted_model] by simp
qed

text \<open>
  C7 as stated fails: that each pair of kind and shown sub-type appears once. A wall whose
  object type is the dash and a wall without sub-type are two keys of the counter, and the
  table shows the row (IfcWall, dash, 1) twice.
\<close>

theorem entities_sentinel_counterexample:
  "entity_counter sentinel_model = [((''IfcWall'', Some dash), 1), ((''IfcWall'', None), 1)]
   \<and> ent_rows sentinel_model = [(''IfcWall'', dash, 1), (''IfcWall'', dash, 1)]
   \<and> \<not> distinct (map (\<lambda>(k, t, n). (k, t)) (ent_rows sentinel_model))"
proof -
  have "entity_counter sentinel_model = [((''IfcWall'', Some dash), 1), ((''IfcWall'', None), 1)]"
    by (simp add: entity_counter_def count_entity_def entity_key_def subtype_of_def
          sentinel_model_def empty_model_def product_def dash_def Let_def)
  then show ?thesis
    by (simp add: ent_rows_def dash_def)
qed

subsection \<open>Hierarchy table\<close>

lemma rels_fold_map_of:
  "map_of (foldl (\<lambda>d rel. AList.update (GlobalId (fst rel)) (snd rel) d) d0 rels) k =
     (case filter (\<lambda>rel. GlobalId (fst rel) = k) rels of
        [] \<Rightarrow> map_of d0 k
      | r # rs \<Rightarrow> Some (snd (last (r # rs))))"
proof (induction rels arbitrary: d0)
  case Nil
  then show ?case by simp
next
  case (Cons rel rels)
  show ?case
    by (simp add: Cons.IH update_conv' split: list.splits)
qed

lemma rels_index_last:
  "rels_get (rels_index m) k =
     (case filter (\<lambda>rel. GlobalId (fst rel) = k) (IfcRelAggregates m) of
        [] \<Rightarrow> []
      | r # rs \<Rightarrow> snd (last (r # rs)))"
  by (simp add: rels_get_def rels_index_def rels_fold_map_of split: list.splits)

lemma display_name_named:
  "Name e \<noteq> None \<and> Name e \<noteq> Some [] \<or> LongName e \<noteq> Absent \<Longrightarrow>
   display_name e = Inr (spec_name e)"
  by (auto simp: display_name_def spec_name_def split: option.splits attr.splits)

lemma for_children_map:
  "(\<And>c r. c \<in> set ts \<Longrightarrow> w (tree_root c) r = Some (Inr (r @ f c))) \<Longrightarrow>
   for_children w (map tree_root ts) rows = Some (Inr (rows @ concat (map f ts)))"
  by (induction ts arbitrary: rows) simp_all

lemma fold_max_ge: "x \<in> set xs \<Longrightarrow> (x::nat) \<le> fold max xs a"
proof (induction xs arbitrary: a)
  case Nil
  then show ?case by simp
next
  case (Cons y ys)
  have mono: "b \<le> fold max ys b" for b :: nat
    by (induction ys arbitrary: b) (auto intro: order_trans [OF max.cobounded2])
  from Cons show ?case
    by (auto intro: order_trans [OF _ mono])
qed

text \<open>
  What the walk does get right: when the index describes a tree, every node of the tree has
  a short name or the long-name attribute, and the fuel covers the height, the walk returns
  and appends exactly the pre-order rows of the tree.
\<close>

lemma walk_preorder:
  "indexed rels t \<Longrightarrow> named t \<Longrightarrow> height t \<le> fuel \<Longrightarrow>
   walk fuel rels path (tree_root t) rows = Some (Inr (rows @ preorder path t))"
proof (induction t arbitrary: fuel path rows)
  case (ENode e ts)
  from ENode.prems(3) obtain n where fuel: "fuel = Suc n" and n: "fold max (map height ts) 0 \<le> n"
    by (cases fuel) auto
  let ?p = "path @ [is_a e @ '':'' @ spec_name e]"
  have dn: "display_name e = Inr (spec_name e)"
    using ENode.prems(2) by (simp add: display_name_named)
  have kids: "walk n rels ?p (tree_root c) r = Some (Inr (r @ preorder ?p c))"
    if "c \<in> set ts" for c r
  proof -
    have "height c \<le> n"
      using fold_max_ge [of "height c" "map height ts" 0] that n by auto
    moreover have "indexed rels c" "named c"
      using ENode.prems(1,2) that by (auto simp: list_all_iff)
    ultimately show ?thesis
      using ENode.IH [OF that] by blast
  qed
  have idx: "rels_get rels (GlobalId e) = map tree_root ts"
    using ENode.prems(1) by simp
  have fc: "for_children (walk n rels ?p) (map tree_root ts) r =
      Some (Inr (r @ concat (map (preorder ?p) ts)))" for r
    by (rule for_children_map) (rule kids)
  let ?row = "\<lparr>Type = is_a e, Nom = spec_name e, Profondeur = length path,
               Chemin = join ''/'' ?p\<rparr>"
  have "walk (Suc n) rels path e rows =
      for_children (walk n rels ?p) (map tree_root ts) (rows @ [?row])"
    by (simp only: walk.simps dn sum.case Let_def idx)
  also have "\<dots> = Some (Inr ((rows @ [?row]) @ concat (map (preorder ?p) ts)))"
    by (rule fc)
  also have "\<dots> = Some (Inr (rows @ preorder path (ENode e ts)))"
    by simp
  finally show ?case
    by (simp only: fuel tree_root.simps)
qed


lemma flatten_hierarchy_preorder:
  "IfcProject m = project # others \<Longrightarrow> tree_root t = project \<Longrightarrow>
   indexed (rels_index m) t \<Longrightarrow> named t \<Longrightarrow> height t \<le> fuel \<Longrightarrow>
   flatten_hierarchy fuel m = Some (Inr (preorder [] t))"
  using walk_preorder [of "rels_index m" t fuel "[]" "[]"]
  by (simp add: flatten_hierarchy_def Let_def)

lemma flatten_hierarchy_no_root:
  "IfcProject m = [] \<Longrightarrow> flatten_hierarchy fuel m = Some (Inr [])"
  by (simp add: flatten_hierarchy_def Let_def)

lemma flatten_hierarchy_preorder_example:
  "flatten_hierarchy 2
     (empty_model\<lparr>IfcProject := [rooted ''IfcProject'' ''p'' None (Value ''Tower'')],
        IfcRelAggregates :=
          [(rooted ''IfcProject'' ''p'' None (Value ''Tower''),
            [rooted ''IfcSite'' ''a'' None Null])]\<rparr>) =
   Some (Inr (preorder []
     (ENode (rooted ''IfcProject'' ''p'' None (Value ''Tower''))
        [ENode (rooted ''IfcSite'' ''a'' None Null) []])))"
  by (rule flatten_hierarchy_preorder [where project = "rooted ''IfcProject'' ''p'' None (Value ''Tower'')" and others = "[]"])
     (simp_all add: rels_index_def rels_get_def empty_model_def rooted_def)

text \<open>
  C3 does not hold of the code. The index keeps, for a parent, the children of the last
  relation naming it, not the concatenation over all its relations: for a project with the
  relations \<open>(p, [A])\<close> and \<open>(p, [B])\<close> the entry of \<open>p\<close> is \<open>[B]\<close> and \<open>A\<close> is
  lost, where the claim has \<open>[A, B]\<close>.
\<close>

theorem rels_index_overwrites:
  "rels_get (rels_index m) k =
     (case filter (\<lambda>rel. GlobalId (fst rel) = k) (IfcRelAggregates m) of
        [] \<Rightarrow> []
      | r # rs \<Rightarrow> snd (last (r # rs)))
   \<and> rels_get (rels_index split_model) ''p'' = [rooted ''IfcBuilding'' ''b'' (Some ''B'') Null]
   \<and> rels_get (rels_index split_model) ''p'' \<noteq>
       [rooted ''IfcSite'' ''a'' (Some ''A'') Null] @ [rooted ''IfcBuilding'' ''b'' (Some ''B'') Null]"
  by (simp add: rels_index_last) (simp add: split_model_def empty_model_def rooted_def)

text \<open>
  C6 does not hold of the code. A node without short name whose kind has no long-name
  attribute makes the walk raise \<open>AttributeError\<close> instead of falling back to the stable
  identifier; and the rows of a project whose children are split over two relations lack
  the child of the first relation, so they are not the pre-order of the aggregation tree.
\<close>

theorem flatten_hierarchy_defects:
  "flatten_hierarchy (Suc (Suc fuel)) unnamed_part_model = Some (Inl AttributeError)
   \<and> flatten_hierarchy (Suc (Suc fuel)) split_model =
       Some (Inr [\<lparr>Type = ''IfcProject'', Nom = ''root'', Profondeur = 0,
                    Chemin = ''IfcProject:root''\<rparr>,
                  \<lparr>Type = ''IfcBuilding'', Nom = ''B'', Profondeur = 1,
                    Chemin = ''IfcProject:root/IfcBuilding:B''\<rparr>])"
  by (simp add: flatten_hierarchy_def rels_index_def rels_get_def display_name_def
        unnamed_part_model_def split_model_def empty_model_def rooted_def Let_def)

subsection \<open>Merging into one workbook\<close>














lemma copy_sheets_refused:
  "new_title ev (map fst (sheets acc)) (merge_title sheet p) = Inl e \<Longrightarrow>
   copy_sheets ev p ((sheet, src) # rest) acc = (acc, Some e)"
  by simp














lemmas table_defs = build_tables_def get_site_geolocation_def get_global_coords_def
  get_length_factor_def length_factor_try_def flatten_hierarchy_def rels_index_def
  summary_pairs_def items_def levels_rows_def get_levels_def level_alt_def level_ngf_def
  ent_rows_def entity_counter_def count_entity_def entity_key_def subtype_of_def dict_get_def

lemmas render_defs = render_workbook_def render_sheet_def write_df_def highlight_proxies_def
  summary_df_def levels_df_def float_column_def hierarchy_df_def entities_df_def
  frame_of_records_def df_column_def ws_cell_def set_font_def set_fill_def set_style_def
  set_value_def get_cell_def indexed_add_def new_workbook_def default_font_def
  sheet_resume_def sheet_niveaux_def sheet_arborescence_def sheet_entites_def entite_ifc_def
  e_acute_def dash_def empty_cell_def

lemmas sample_defs = env3_def env_of_def ifc_def tiny_model_def empty_model_def product_def















subsection \<open>Batch runs\<close>

lemma process_single_open_error:
  "ifc_open ev f = Inl e \<Longrightarrow> process_single fuel ev f out_dir merge st = Some (st, Some e)"
  by (simp add: process_single_def build_workbook_def)

lemma batch_loop_append:
  "batch_loop fuel ev out_dir merge pre st = Some (st1, None) \<Longrightarrow>
   batch_loop fuel ev out_dir merge (pre @ rest) st = batch_loop fuel ev out_dir merge rest st1"
  by (induction pre arbitrary: st) (auto split: option.splits prod.splits)

lemma process_single_standalone:
  "process_single fuel ev f out_dir False st = Some (st', None) \<Longrightarrow>
   map fst (saved st') = map fst (saved st) @ [target out_dir f] \<and> merge_wb st' = merge_wb st"
  by (auto simp: process_single_def save_wb_def split: option.splits sum.splits if_splits)

lemma process_single_merge:
  "process_single fuel ev f out_dir True st = Some (st', err) \<Longrightarrow> merge_wb st \<noteq> None \<Longrightarrow>
   saved st' = saved st \<and> merge_wb st' \<noteq> None"
  by (auto simp: process_single_def split: option.splits sum.splits prod.splits)

lemma batch_loop_standalone:
  "batch_loop fuel ev out_dir False pre st = Some (st1, None) \<Longrightarrow>
   map fst (saved st1) = map fst (saved st) @ map (target out_dir) pre"
proof (induction pre arbitrary: st)
  case Nil
  then show ?case by simp
next
  case (Cons f fs)
  from Cons.prems obtain st' where
    one: "process_single fuel ev f out_dir False st = Some (st', None)" and
    more: "batch_loop fuel ev out_dir False fs st' = Some (st1, None)"
    by (auto split: option.splits prod.splits)
  from process_single_standalone [OF one] Cons.IH [OF more] show ?case
    by simp
qed

lemma batch_loop_merge:
  "batch_loop fuel ev out_dir True pre st = Some (st1, None) \<Longrightarrow> merge_wb st \<noteq> None \<Longrightarrow>
   saved st1 = saved st"
proof (induction pre arbitrary: st)
  case Nil
  then show ?case by simp
next
  case (Cons f fs)
  from Cons.prems(1) obtain st' where
    one: "process_single fuel ev f out_dir True st = Some (st', None)" and
    more: "batch_loop fuel ev out_dir True fs st' = Some (st1, None)"
    by (auto split: option.splits prod.splits)
  from process_single_merge [OF one Cons.prems(2)] Cons.IH [OF more] show ?case
    by simp
qed

text \<open>
  C1, as the code has it. The loop over the inputs has no handler: when the inputs before
  \<open>f\<close> were processed without error and \<open>f\<close> cannot be opened or parsed, the run ends
  there with the error of \<open>f\<close>, whatever inputs follow. No failure is recorded and nothing
  after \<open>f\<close> is processed. What has been written by then is, for a standalone run, the
  documents of the inputs before \<open>f\<close>, in order, and for a merge run nothing.
\<close>

theorem batch_stops_at_first_failure:
  assumes "batch_loop fuel ev (if merge then None else dest) merge pre
             \<lparr>saved = [], merge_wb = (if merge then Some new_workbook else None)\<rparr> = Some (st1, None)"
    and "ifc_open ev f = Inl e"
  shows "main_folder fuel ev src (pre @ f # post) merge dest = Some (st1, Some e)
     \<and> map fst (saved st1) = (if merge then [] else map (target dest) pre)"
proof -
  let ?st0 = "\<lparr>saved = [], merge_wb = (if merge then Some new_workbook else None)\<rparr>"
  let ?out = "if merge then None else dest"
  have "batch_loop fuel ev ?out merge (pre @ f # post) ?st0 =
      batch_loop fuel ev ?out merge (f # post) st1"
    using assms(1) by (rule batch_loop_append)
  also have "\<dots> = Some (st1, Some e)"
    by (simp add: process_single_open_error [OF assms(2)])
  finally have "main_folder fuel ev src (pre @ f # post) merge dest = Some (st1, Some e)"
    by (simp add: main_folder_def Let_def)
  moreover have "map fst (saved st1) = (if merge then [] else map (target dest) pre)"
  proof (cases merge)
    case True
    with assms(1) batch_loop_merge [of fuel ev None pre ?st0 st1] show ?thesis
      by simp
  next
    case False
    with assms(1) batch_loop_standalone [of fuel ev dest pre ?st0 st1] show ?thesis
      by simp
  qed
  ultimately show ?thesis by simp
qed

lemma env3_first:
  "\<exists>st1. batch_loop 0 env3 None False [ifc ''a''] \<lparr>saved = [], merge_wb = None\<rparr> = Some (st1, None)"
  by (simp add: process_single_def build_workbook_def save_wb_def table_defs render_defs
        sample_defs Let_def)

theorem batch_stops_at_first_failure_witness:
  "\<exists>st1. batch_loop 0 env3 None False [ifc ''a''] \<lparr>saved = [], merge_wb = None\<rparr> = Some (st1, None)
     \<and> ifc_open env3 (ifc ''b'') = Inl (OpenError ''not an IFC file'')
     \<and> main_folder 0 env3 ''in'' [ifc ''a'', ifc ''b'', ifc ''c''] False None =
         Some (st1, Some (OpenError ''not an IFC file''))
     \<and> map fst (saved st1) = [''in/a.xlsx'']"
proof -
  from env3_first obtain st1 where
    first: "batch_loop 0 env3 None False [ifc ''a''] \<lparr>saved = [], merge_wb = None\<rparr> = Some (st1, None)"
    by blast
  have corrupt: "ifc_open env3 (ifc ''b'') = Inl (OpenError ''not an IFC file'')"
    by (simp add: env3_def env_of_def ifc_def)
  have first': "batch_loop 0 env3 (if False then None else None) False [ifc ''a'']
      \<lparr>saved = [], merge_wb = (if False then Some new_workbook else None)\<rparr> = Some (st1, None)"
    using first by simp
  from batch_stops_at_first_failure [OF first' corrupt, of "''in''" "[ifc ''c'']"]
  show ?thesis
    using first corrupt by (auto simp: target_def ifc_def)
qed

text \<open>
  C1 as stated fails: of three inputs whose second is corrupt, only the first gets its
  document, and the run ends with the error of the second instead of going on to the third.
\<close>

theorem batch_not_isolated_counterexample:
  "map_option (\<lambda>(st, e). (map fst (saved st), e))
     (main_folder 0 env3 ''in'' [ifc ''a'', ifc ''b'', ifc ''c''] False None) =
   Some ([''in/a.xlsx''], Some (OpenError ''not an IFC file''))"
  by (simp add: main_folder_def process_single_def build_workbook_def save_wb_def target_def
        table_defs render_defs sample_defs Let_def)

end
